theory Spec2Isabelle
  imports Complex_Main "HOL-Library.AList" "HOL-Library.Sublist"
begin

section \<open>The diagram canvas of \<^verbatim>\<open>src/diagram.ts\<close>\<close>

text \<open>
  The theory embeds the interactive rectangle chart of \<^verbatim>\<open>src/diagram.ts\<close>: the class
  \<^verbatim>\<open>Rectangle\<close> with its hit test, and the class \<^verbatim>\<open>Chart\<close> with its entity and connection
  maps, the view transform, the four gesture fields and the pointer and wheel handlers.

  Conventions of the embedding.
  \<^item> A TypeScript \<^verbatim>\<open>number\<close> is a \<^typ>\<open>real\<close>: the arithmetic is exact. A division by
    zero is \<^verbatim>\<open>NaN\<close> or an infinity in the program and 0 in HOL, so a statement about the
    value of a quotient by the scale is made at a nonzero scale, and a counterexample is
    a value that differs from the claimed one in the program and in HOL alike.
  \<^item> A JavaScript \<^verbatim>\<open>Map\<close> is an association list in insertion order with distinct keys:
    \<^verbatim>\<open>set\<close> is \<^const>\<open>AList.update\<close> (an existing key keeps its place, a new key goes to
    the end), \<^verbatim>\<open>delete\<close> is \<^const>\<open>AList.delete\<close>, \<^verbatim>\<open>get\<close> is \<^const>\<open>map_of\<close>,
    \<^verbatim>\<open>values()\<close> is \<^term>\<open>map snd\<close> and \<^verbatim>\<open>size\<close> is \<^const>\<open>length\<close>.
  \<^item> A \<^verbatim>\<open>Rectangle\<close> is an object that the chart's map and the gesture fields share by
    reference. The chart state therefore has a store \<open>objs\<close> from references to
    rectangles; the map and the gestures hold references.
  \<^item> Record fields carry a prefix (\<open>r_x\<close> for \<^verbatim>\<open>Rectangle.x\<close>, \<open>d_id\<close> for \<^verbatim>\<open>RectData.id\<close>,
    \<open>t_scale\<close> for \<^verbatim>\<open>Transform.scale\<close>, ...), since several classes share field names.
  \<^item> \<^verbatim>\<open>Math.random()\<close> and \<^verbatim>\<open>crypto.randomUUID()\<close> are parameters of the operation that
    calls them. Drawing on the canvas changes no field of the chart, so \<^verbatim>\<open>draw()\<close> is the
    identity on the state; the curve that \<^verbatim>\<open>drawConnections\<close> strokes is a function of its own.
\<close>

subsection \<open>Data model\<close>

record Point =
  p_x :: real
  p_y :: real

record RectEntry =
  e_id :: string
  e_left :: string
  e_right :: string

record RectData =
  d_id :: string
  d_title :: string
  d_entries :: "RectEntry list"

record Transform =
  t_scale :: real
  translateX :: real
  translateY :: real

datatype HitPart =
  Inside | Left | Right | Top | Bottom | TopLeft | TopRight | BottomLeft | BottomRight

text \<open>The string behind each member of the union type \<^verbatim>\<open>HitPart\<close>.\<close>

fun part_name :: "HitPart \<Rightarrow> string" where
  "part_name Inside = ''inside''"
| "part_name Left = ''left''"
| "part_name Right = ''right''"
| "part_name Top = ''top''"
| "part_name Bottom = ''bottom''"
| "part_name TopLeft = ''top-left''"
| "part_name TopRight = ''top-right''"
| "part_name BottomLeft = ''bottom-left''"
| "part_name BottomRight = ''bottom-right''"

text \<open>\<^verbatim>\<open>String.prototype.includes\<close>: the second string occurs in the first.\<close>

fun str_includes :: "string \<Rightarrow> string \<Rightarrow> bool" where
  "str_includes [] sub = (sub = [])"
| "str_includes (c # cs) sub = (prefix sub (c # cs) \<or> str_includes cs sub)"

record Endpoint =
  rectId :: string
  entryId :: "string option"

record Connection =
  c_id :: string
  sideA :: Endpoint
  sideB :: Endpoint

record Rectangle =
  r_x :: real
  r_y :: real
  r_width :: real
  r_height :: real
  r_data :: RectData

definition edgeThreshold :: real where
  "edgeThreshold = 6"

text \<open>The getter \<^verbatim>\<open>Rectangle.id\<close>.\<close>

definition rect_id :: "Rectangle \<Rightarrow> string" where
  "rect_id r = d_id (r_data r)"

text \<open>
  The constants that \<^verbatim>\<open>Rectangle.getHitPart\<close> declares before its chain of tests: the
  two spans, each extended by the threshold, and the four edge bands.
\<close>

definition inX :: "Rectangle \<Rightarrow> real \<Rightarrow> bool" where
  "inX r px = (px > r_x r - edgeThreshold \<and> px < r_x r + r_width r + edgeThreshold)"

definition inY :: "Rectangle \<Rightarrow> real \<Rightarrow> bool" where
  "inY r py = (py > r_y r - edgeThreshold \<and> py < r_y r + r_height r + edgeThreshold)"

definition nearLeft :: "Rectangle \<Rightarrow> real \<Rightarrow> real \<Rightarrow> bool" where
  "nearLeft r px py = (\<bar>px - r_x r\<bar> < edgeThreshold \<and> inY r py)"

definition nearRight :: "Rectangle \<Rightarrow> real \<Rightarrow> real \<Rightarrow> bool" where
  "nearRight r px py = (\<bar>px - (r_x r + r_width r)\<bar> < edgeThreshold \<and> inY r py)"

definition nearTop :: "Rectangle \<Rightarrow> real \<Rightarrow> real \<Rightarrow> bool" where
  "nearTop r px py = (\<bar>py - r_y r\<bar> < edgeThreshold \<and> inX r px)"

definition nearBottom :: "Rectangle \<Rightarrow> real \<Rightarrow> real \<Rightarrow> bool" where
  "nearBottom r px py = (\<bar>py - (r_y r + r_height r)\<bar> < edgeThreshold \<and> inX r px)"

text \<open>\<^verbatim>\<open>Rectangle.getHitPart\<close>, its tests in the order of the source; \<^verbatim>\<open>null\<close> is \<^const>\<open>None\<close>.\<close>

definition getHitPart :: "Rectangle \<Rightarrow> real \<Rightarrow> real \<Rightarrow> HitPart option" where
  "getHitPart r px py =
    (if nearLeft r px py \<and> nearTop r px py then Some TopLeft
     else if nearRight r px py \<and> nearTop r px py then Some TopRight
     else if nearLeft r px py \<and> nearBottom r px py then Some BottomLeft
     else if nearRight r px py \<and> nearBottom r px py then Some BottomRight
     else if nearLeft r px py then Some Left
     else if nearRight r px py then Some Right
     else if nearTop r px py then Some Top
     else if nearBottom r px py then Some Bottom
     else if inX r px \<and> inY r py then Some Inside
     else None)"

subsection \<open>Style constants\<close>

text \<open>The numeric members of \<^verbatim>\<open>RECT_STYLE\<close>, and the table \<^verbatim>\<open>CURSOR_MAP\<close>.\<close>

definition padding :: real where
  "padding = 8"

definition lineHeight :: real where
  "lineHeight = 18"

definition titleFontSize :: real where
  "titleFontSize = 16"

definition entryFontSize :: real where
  "entryFontSize = 14"

definition minWidth :: real where
  "minWidth = 50"

fun CURSOR_MAP :: "HitPart \<Rightarrow> string" where
  "CURSOR_MAP Inside = ''move''"
| "CURSOR_MAP Left = ''ew-resize''"
| "CURSOR_MAP Right = ''ew-resize''"
| "CURSOR_MAP Top = ''ns-resize''"
| "CURSOR_MAP Bottom = ''ns-resize''"
| "CURSOR_MAP TopLeft = ''nwse-resize''"
| "CURSOR_MAP TopRight = ''nesw-resize''"
| "CURSOR_MAP BottomLeft = ''nesw-resize''"
| "CURSOR_MAP BottomRight = ''nwse-resize''"

subsection \<open>The chart\<close>

text \<open>
  The four gesture fields of \<^verbatim>\<open>Chart\<close>. \<open>drag_rect\<close> and \<open>rz_rect\<close> are references into
  the store; \<open>rz_init\<close> is the record \<^verbatim>\<open>{x, y, w, h}\<close>.
\<close>

record DragState =
  drag_rect :: nat
  drag_start :: Point
  drag_initPos :: Point

record InitGeom =
  i_x :: real
  i_y :: real
  i_w :: real
  i_h :: real

record ResizeState =
  rz_rect :: nat
  rz_part :: HitPart
  rz_start :: Point
  rz_init :: InitGeom

record PanState =
  pan_start :: Point
  pan_initTrans :: Transform

record PinchState =
  startDist :: real
  startScale :: real
  mid :: Point

text \<open>
  The fields of \<^verbatim>\<open>Chart\<close>. \<open>canvas_width\<close>, \<open>canvas_height\<close> and \<open>cursor\<close> are the
  members of the canvas element that the class reads and writes; \<open>nextRef\<close> is the next
  unused reference of the store.
\<close>

record Chart =
  canvas_width :: real
  canvas_height :: real
  cursor :: string
  objs :: "nat \<Rightarrow> Rectangle"
  nextRef :: nat
  rectangles :: "(string \<times> nat) list"
  transform :: Transform
  pointers :: "(int \<times> Point) list"
  connections :: "(string \<times> Connection) list"
  draggingRect :: "DragState option"
  resizingRect :: "ResizeState option"
  panning :: "PanState option"
  pinch :: "PinchState option"

subsection \<open>Entities and connections\<close>

text \<open>
  \<^verbatim>\<open>Chart.addRectangle\<close>. \<open>u\<close> and \<open>v\<close> are the two results of \<^verbatim>\<open>Math.random()\<close>. The
  method has no \<^verbatim>\<open>return\<close> statement, so a call evaluates to \<^verbatim>\<open>undefined\<close>: the first
  component of the result is the returned string, if any, and is \<^const>\<open>None\<close>.
\<close>

definition addRectangle :: "RectData \<Rightarrow> real \<Rightarrow> real \<Rightarrow> Chart \<Rightarrow> string option \<times> Chart" where
  "addRectangle data u v s =
    (let w = 200;
         h = 120;
         x = u * (canvas_width s / t_scale (transform s) - w);
         y = v * (canvas_height s / t_scale (transform s) - h);
         rect = \<lparr>r_x = x, r_y = y, r_width = w, r_height = h, r_data = data\<rparr>;
         ref = nextRef s
     in (None,
         s\<lparr>objs := (objs s)(ref := rect),
           nextRef := Suc ref,
           rectangles := AList.update (rect_id rect) ref (rectangles s)\<rparr>))"

text \<open>\<^verbatim>\<open>Chart.removeRectangle\<close>: \<^verbatim>\<open>Map.delete\<close> tells whether the key was there.\<close>

definition removeRectangle :: "string \<Rightarrow> Chart \<Rightarrow> bool \<times> Chart" where
  "removeRectangle k s =
    (map_of (rectangles s) k \<noteq> None,
     s\<lparr>rectangles := AList.delete k (rectangles s)\<rparr>)"

text \<open>\<^verbatim>\<open>Chart.updateRectangle\<close>: the assignment \<^verbatim>\<open>rect.data = data\<close> writes to the shared object.\<close>

definition updateRectangle :: "string \<Rightarrow> RectData \<Rightarrow> Chart \<Rightarrow> bool \<times> Chart" where
  "updateRectangle k data s =
    (case map_of (rectangles s) k of
       None \<Rightarrow> (False, s)
     | Some ref \<Rightarrow> (True, s\<lparr>objs := (objs s)(ref := (objs s ref)\<lparr>r_data := data\<rparr>)\<rparr>))"

text \<open>\<^verbatim>\<open>Chart.addConnection\<close>; \<open>uuid\<close> is the result of \<^verbatim>\<open>crypto.randomUUID()\<close>.\<close>

definition addConnection :: "Endpoint \<Rightarrow> Endpoint \<Rightarrow> string \<Rightarrow> Chart \<Rightarrow> string \<times> Chart" where
  "addConnection a b uuid s =
    (uuid,
     s\<lparr>connections :=
         AList.update uuid \<lparr>c_id = uuid, sideA = a, sideB = b\<rparr> (connections s)\<rparr>)"

definition removeConnection :: "string \<Rightarrow> Chart \<Rightarrow> bool \<times> Chart" where
  "removeConnection k s =
    (map_of (connections s) k \<noteq> None,
     s\<lparr>connections := AList.delete k (connections s)\<rparr>)"

definition getConnections :: "Chart \<Rightarrow> Connection list" where
  "getConnections s = map snd (connections s)"

definition getConnectionsForRect :: "string \<Rightarrow> Chart \<Rightarrow> Connection list" where
  "getConnectionsForRect k s =
    filter (\<lambda>c. rectId (sideA c) = k \<or> rectId (sideB c) = k) (getConnections s)"

subsection \<open>Anchors of connections and the minimum height\<close>

text \<open>\<^verbatim>\<open>Array.prototype.findIndex\<close>: the first index whose element passes the test, or \<open>-1\<close>.\<close>

fun findIndex :: "('a \<Rightarrow> bool) \<Rightarrow> 'a list \<Rightarrow> int" where
  "findIndex P [] = - 1"
| "findIndex P (x # xs) =
    (if P x then 0 else (let i = findIndex P xs in if i < 0 then - 1 else i + 1))"

text \<open>
  The test \<^verbatim>\<open>if (ep.entryId)\<close>: an absent \<^verbatim>\<open>entryId\<close> and the empty string are both falsy.
\<close>

fun truthy :: "string option \<Rightarrow> bool" where
  "truthy None = False"
| "truthy (Some e) = (e \<noteq> [])"

text \<open>\<^verbatim>\<open>Chart.getEndpointPosition\<close>.\<close>

definition getEndpointPosition :: "Endpoint \<Rightarrow> bool \<Rightarrow> Chart \<Rightarrow> Point" where
  "getEndpointPosition ep isFrom s =
    (case map_of (rectangles s) (rectId ep) of
       None \<Rightarrow> \<lparr>p_x = 0, p_y = 0\<rparr>
     | Some ref \<Rightarrow>
        (let r = objs s ref;
             scale = t_scale (transform s);
             pad = padding / scale;
             titleFontSize' = titleFontSize / scale;
             titleLineHeight = titleFontSize' * 1.2;
             entryLineHeight = lineHeight / scale;
             titleY = r_y r + pad;
             center = \<lparr>p_x = r_x r + r_width r / 2, p_y = r_y r + r_height r / 2\<rparr>
         in if truthy (entryId ep) then
              (let idx = findIndex (\<lambda>e. Some (e_id e) = entryId ep) (d_entries (r_data r))
               in if idx \<ge> 0 then
                    \<lparr>p_x = (if isFrom then r_x r + r_width r - pad else r_x r + pad),
                     p_y = titleY + titleLineHeight + of_int idx * entryLineHeight
                           + entryLineHeight / 2\<rparr>
                  else center)
            else center))"

text \<open>
  The cubic curve that \<^verbatim>\<open>Chart.drawConnections\<close> strokes for one connection: the start
  point, the two control points and the end point. \<^verbatim>\<open>drawConnections\<close> strokes one curve
  for each connection of \<^verbatim>\<open>getConnections()\<close>.
\<close>

record Curve =
  cv_from :: Point
  cv_cp1 :: Point
  cv_cp2 :: Point
  cv_to :: Point

definition connectionCurve :: "Connection \<Rightarrow> Chart \<Rightarrow> Curve" where
  "connectionCurve conn s =
    (let a1 = getEndpointPosition (sideA conn) True s;
         b1 = getEndpointPosition (sideB conn) False s;
         dx1 = \<bar>p_x a1 - p_x b1\<bar>;
         a2 = getEndpointPosition (sideA conn) False s;
         b2 = getEndpointPosition (sideB conn) True s;
         dx2 = \<bar>p_x a2 - p_x b2\<bar>;
         fromPos = (if dx1 \<le> dx2 then a1 else a2);
         toPos = (if dx1 \<le> dx2 then b1 else b2);
         cpX = p_x fromPos + (p_x toPos - p_x fromPos) / 2;
         cp1Y = p_y fromPos;
         cp2Y = p_y toPos
     in \<lparr>cv_from = fromPos,
         cv_cp1 = \<lparr>p_x = cpX, p_y = cp1Y\<rparr>,
         cv_cp2 = \<lparr>p_x = cpX, p_y = cp2Y\<rparr>,
         cv_to = toPos\<rparr>)"

definition drawConnections :: "Chart \<Rightarrow> Curve list" where
  "drawConnections s = map (\<lambda>conn. connectionCurve conn s) (getConnections s)"

text \<open>\<^verbatim>\<open>Chart.calculateMinimumHeight\<close>.\<close>

definition calculateMinimumHeight :: "Rectangle \<Rightarrow> real \<Rightarrow> real" where
  "calculateMinimumHeight r scale =
    (let titleFontSize' = titleFontSize / scale;
         titleLineHeight = titleFontSize' * 1.2;
         entryLineHeight = lineHeight / scale;
         pad = padding / scale;
         contentHeight = titleLineHeight + real (length (d_entries (r_data r))) * entryLineHeight
     in contentHeight + pad * 2)"

subsection \<open>Hit test, coordinates and the cursor\<close>

text \<open>
  \<^verbatim>\<open>Chart.hitTest\<close>: the loop over the rectangles, last inserted first, that returns at
  the first rectangle with a hit part.
\<close>

fun hitTest_loop ::
  "(nat \<Rightarrow> Rectangle) \<Rightarrow> nat list \<Rightarrow> real \<Rightarrow> real \<Rightarrow> (nat \<times> HitPart) option" where
  "hitTest_loop h [] x y = None"
| "hitTest_loop h (ref # refs) x y =
    (case getHitPart (h ref) x y of
       Some part \<Rightarrow> Some (ref, part)
     | None \<Rightarrow> hitTest_loop h refs x y)"

definition hitTest :: "Chart \<Rightarrow> real \<Rightarrow> real \<Rightarrow> (nat \<times> HitPart) option" where
  "hitTest s x y = hitTest_loop (objs s) (rev (map snd (rectangles s))) x y"

definition screenToWorld :: "Chart \<Rightarrow> real \<Rightarrow> real \<Rightarrow> Point" where
  "screenToWorld s x y =
    \<lparr>p_x = (x - translateX (transform s)) / t_scale (transform s),
     p_y = (y - translateY (transform s)) / t_scale (transform s)\<rparr>"

text \<open>\<^verbatim>\<open>Chart.updateCursor\<close>.\<close>

definition updateCursor :: "Point \<Rightarrow> Chart \<Rightarrow> Chart" where
  "updateCursor screenPoint s =
    (if pinch s \<noteq> None \<or> panning s \<noteq> None then s
     else if resizingRect s \<noteq> None \<or> draggingRect s \<noteq> None then s
     else (let worldPoint = screenToWorld s (p_x screenPoint) (p_y screenPoint)
           in case hitTest s (p_x worldPoint) (p_y worldPoint) of
                Some (ref, part) \<Rightarrow> s\<lparr>cursor := CURSOR_MAP part\<rparr>
              | None \<Rightarrow> s\<lparr>cursor := ''default''\<rparr>))"

text \<open>
  The constructor of \<^verbatim>\<open>Chart\<close>: it throws when the canvas has no 2D context, and
  otherwise starts from empty maps, the identity transform and no gesture.
\<close>

datatype error = CannotGet2DContext

definition emptyChart :: "real \<Rightarrow> real \<Rightarrow> Chart" where
  "emptyChart w h =
    \<lparr>canvas_width = w, canvas_height = h, cursor = [],
     objs = (\<lambda>ref. \<lparr>r_x = 0, r_y = 0, r_width = 0, r_height = 0,
                     r_data = \<lparr>d_id = [], d_title = [], d_entries = []\<rparr>\<rparr>),
     nextRef = 0, rectangles = [],
     transform = \<lparr>t_scale = 1, translateX = 0, translateY = 0\<rparr>,
     pointers = [], connections = [],
     draggingRect = None, resizingRect = None, panning = None, pinch = None\<rparr>"

definition newChart :: "bool \<Rightarrow> real \<Rightarrow> real \<Rightarrow> error + Chart" where
  "newChart has_context w h =
    (if \<not> has_context then Inl CannotGet2DContext
     else Inr (updateCursor \<lparr>p_x = - 1, p_y = - 1\<rparr> (emptyChart w h)))"

subsection \<open>Pointer and wheel handlers\<close>

text \<open>\<^verbatim>\<open>Math.hypot\<close> of two arguments.\<close>

definition hypot :: "real \<Rightarrow> real \<Rightarrow> real" where
  "hypot dx dy = sqrt (dx * dx + dy * dy)"

text \<open>
  \<^verbatim>\<open>Chart.handlePointerDown\<close>, for an event with \<^verbatim>\<open>pointerId\<close>, \<^verbatim>\<open>clientX\<close> and
  \<^verbatim>\<open>clientY\<close>. With exactly two tracked pointers the method records the pinch and returns;
  otherwise it starts a drag, a resize or a pan. No branch clears a gesture field.
\<close>

definition handlePointerDown :: "int \<Rightarrow> real \<Rightarrow> real \<Rightarrow> Chart \<Rightarrow> Chart" where
  "handlePointerDown pointerId clientX clientY s0 =
    (let sp = \<lparr>p_x = clientX, p_y = clientY\<rparr>;
         s = s0\<lparr>pointers := AList.update pointerId sp (pointers s0)\<rparr>
     in if length (pointers s) = 2 then
          (let pts = map snd (pointers s);
               dx = p_x (pts ! 1) - p_x (pts ! 0);
               dy = p_y (pts ! 1) - p_y (pts ! 0);
               dist = hypot dx dy
           in s\<lparr>pinch := Some \<lparr>startDist = dist,
                                startScale = t_scale (transform s),
                                mid = \<lparr>p_x = (p_x (pts ! 0) + p_x (pts ! 1)) / 2,
                                       p_y = (p_y (pts ! 0) + p_y (pts ! 1)) / 2\<rparr>\<rparr>\<rparr>)
        else
          (let w = screenToWorld s (p_x sp) (p_y sp)
           in case hitTest s (p_x w) (p_y w) of
                Some (ref, part) \<Rightarrow>
                  (if part = Inside then
                     s\<lparr>draggingRect :=
                          Some \<lparr>drag_rect = ref, drag_start = sp,
                                drag_initPos = \<lparr>p_x = r_x (objs s ref), p_y = r_y (objs s ref)\<rparr>\<rparr>,
                       cursor := ''move''\<rparr>
                   else
                     s\<lparr>resizingRect :=
                          Some \<lparr>rz_rect = ref, rz_part = part, rz_start = sp,
                                rz_init = \<lparr>i_x = r_x (objs s ref), i_y = r_y (objs s ref),
                                           i_w = r_width (objs s ref),
                                           i_h = r_height (objs s ref)\<rparr>\<rparr>,
                       cursor := CURSOR_MAP part\<rparr>)
              | None \<Rightarrow>
                  s\<lparr>panning := Some \<lparr>pan_start = sp, pan_initTrans = transform s\<rparr>,
                    cursor := ''grabbing''\<rparr>))"

text \<open>The pinch branch of \<^verbatim>\<open>Chart.handlePointerMove\<close>.\<close>

definition pinchMove :: "PinchState \<Rightarrow> Chart \<Rightarrow> Chart" where
  "pinchMove p s =
    (let pts = map snd (pointers s);
         dx = p_x (pts ! 1) - p_x (pts ! 0);
         dy = p_y (pts ! 1) - p_y (pts ! 0);
         dist = hypot dx dy;
         scale = (dist / startDist p) * startScale p;
         w0 = screenToWorld s (p_x (mid p)) (p_y (mid p))
     in s\<lparr>transform := \<lparr>t_scale = scale,
                          translateX = p_x (mid p) - p_x w0 * scale,
                          translateY = p_y (mid p) - p_y w0 * scale\<rparr>\<rparr>)"

text \<open>
  The resize branch of \<^verbatim>\<open>Chart.handlePointerMove\<close>. The four \<^verbatim>\<open>let\<close> variables of the
  source are assigned in the order of the source; each line below is one assignment.
\<close>

definition resizeMove :: "ResizeState \<Rightarrow> Point \<Rightarrow> Chart \<Rightarrow> Chart" where
  "resizeMove rz sp s =
    (let rect = objs s (rz_rect rz);
         part = part_name (rz_part rz);
         start = rz_start rz;
         init = rz_init rz;
         scale = t_scale (transform s);
         dx = (p_x sp - p_x start) / scale;
         dy = (p_y sp - p_y start) / scale;
         newX = r_x rect;
         newY = r_y rect;
         newW = r_width rect;
         newH = r_height rect;
         newX = (if str_includes part ''left'' then i_x init + dx else newX);
         newW = (if str_includes part ''left'' then i_w init - dx else newW);
         newW = (if str_includes part ''right'' then i_w init + dx else newW);
         newY = (if str_includes part ''top'' then i_y init + dy else newY);
         newH = (if str_includes part ''top'' then i_h init - dy else newH);
         newH = (if str_includes part ''bottom'' then i_h init + dy else newH);
         minHeight = calculateMinimumHeight rect scale;
         minWidth' = minWidth / scale;
         newX = (if newW < minWidth' \<and> str_includes part ''left''
                 then r_x rect + r_width rect - minWidth' else newX);
         newW = (if newW < minWidth' then minWidth' else newW);
         newY = (if newH < minHeight \<and> str_includes part ''top''
                 then r_y rect + r_height rect - minHeight else newY);
         newH = (if newH < minHeight then minHeight else newH)
     in s\<lparr>objs := (objs s)(rz_rect rz :=
            rect\<lparr>r_x := newX, r_y := newY, r_width := newW, r_height := newH\<rparr>)\<rparr>)"

text \<open>The drag branch and the pan branch.\<close>

definition dragMove :: "DragState \<Rightarrow> Point \<Rightarrow> Chart \<Rightarrow> Chart" where
  "dragMove d sp s =
    (let rect = objs s (drag_rect d);
         dx = (p_x sp - p_x (drag_start d)) / t_scale (transform s);
         dy = (p_y sp - p_y (drag_start d)) / t_scale (transform s)
     in s\<lparr>objs := (objs s)(drag_rect d :=
            rect\<lparr>r_x := p_x (drag_initPos d) + dx, r_y := p_y (drag_initPos d) + dy\<rparr>)\<rparr>)"

definition panMove :: "PanState \<Rightarrow> Point \<Rightarrow> Chart \<Rightarrow> Chart" where
  "panMove pn sp s =
    s\<lparr>transform := (transform s)
        \<lparr>translateX := translateX (pan_initTrans pn) + (p_x sp - p_x (pan_start pn)),
         translateY := translateY (pan_initTrans pn) + (p_y sp - p_y (pan_start pn))\<rparr>\<rparr>"

text \<open>
  \<^verbatim>\<open>Chart.handlePointerMove\<close>: a move of an untracked pointer only updates the cursor;
  a move of a tracked pointer records its position and runs the first branch whose
  test passes, in the order pinch, resize, drag, pan.
\<close>

definition handlePointerMove :: "int \<Rightarrow> real \<Rightarrow> real \<Rightarrow> Chart \<Rightarrow> Chart" where
  "handlePointerMove pointerId clientX clientY s0 =
    (let sp = \<lparr>p_x = clientX, p_y = clientY\<rparr>
     in if map_of (pointers s0) pointerId = None then updateCursor sp s0
        else
          (let s = s0\<lparr>pointers := AList.update pointerId sp (pointers s0)\<rparr>
           in case (if length (pointers s) = 2 then pinch s else None) of
                Some p \<Rightarrow> pinchMove p s
              | None \<Rightarrow>
                 (case resizingRect s of
                    Some rz \<Rightarrow> resizeMove rz sp s
                  | None \<Rightarrow>
                     (case draggingRect s of
                        Some d \<Rightarrow> dragMove d sp s
                      | None \<Rightarrow>
                         (case panning s of
                            Some pn \<Rightarrow> panMove pn sp s
                          | None \<Rightarrow> s)))))"

text \<open>\<^verbatim>\<open>Chart.handlePointerUp\<close>, which also handles \<^verbatim>\<open>pointercancel\<close>.\<close>

definition handlePointerUp :: "int \<Rightarrow> real \<Rightarrow> real \<Rightarrow> Chart \<Rightarrow> Chart" where
  "handlePointerUp pointerId clientX clientY s0 =
    (let s1 = s0\<lparr>pointers := AList.delete pointerId (pointers s0)\<rparr>;
         s2 = (if length (pointers s1) < 2 then s1\<lparr>pinch := None\<rparr> else s1)
     in if length (pointers s2) = 0 then
          updateCursor \<lparr>p_x = clientX, p_y = clientY\<rparr>
            (s2\<lparr>draggingRect := None, resizingRect := None, panning := None\<rparr>)
        else s2)"

text \<open>\<^verbatim>\<open>Chart.handleWheel\<close>, for an event with \<^verbatim>\<open>deltaY\<close>, \<^verbatim>\<open>clientX\<close> and \<^verbatim>\<open>clientY\<close>.\<close>

definition handleWheel :: "real \<Rightarrow> real \<Rightarrow> real \<Rightarrow> Chart \<Rightarrow> Chart" where
  "handleWheel deltaY clientX clientY s =
    (let delta = - deltaY * 0.001;
         newScale = t_scale (transform s) * (1 + delta);
         wx = (clientX - translateX (transform s)) / t_scale (transform s);
         wy = (clientY - translateY (transform s)) / t_scale (transform s)
     in s\<lparr>transform := \<lparr>t_scale = newScale,
                          translateX = clientX - wx * newScale,
                          translateY = clientY - wy * newScale\<rparr>\<rparr>)"

text \<open>The events that \<^verbatim>\<open>Chart.initEvents\<close> listens to, and the handler of each.\<close>

datatype Event =
  PointerDown int real real
| PointerMove int real real
| PointerUp int real real
| PointerCancel int real real
| Wheel real real real

fun handleEvent :: "Chart \<Rightarrow> Event \<Rightarrow> Chart" where
  "handleEvent s (PointerDown i x y) = handlePointerDown i x y s"
| "handleEvent s (PointerMove i x y) = handlePointerMove i x y s"
| "handleEvent s (PointerUp i x y) = handlePointerUp i x y s"
| "handleEvent s (PointerCancel i x y) = handlePointerUp i x y s"
| "handleEvent s (Wheel d x y) = handleWheel d x y s"

definition run :: "Chart \<Rightarrow> Event list \<Rightarrow> Chart" where
  "run s evs = foldl handleEvent s evs"

subsection \<open>Rows of a drawn rectangle\<close>

text \<open>
  \<^verbatim>\<open>Chart.drawRectangle\<close> draws the two texts of entry \<open>i\<close> with the baseline \<^verbatim>\<open>top\<close> at
  the height computed here; the row of the entry starts there and is one
  \<^verbatim>\<open>entryLineHeight\<close> high.
\<close>

definition entryRowY :: "Rectangle \<Rightarrow> real \<Rightarrow> nat \<Rightarrow> real" where
  "entryRowY r scale i =
    (let pad = padding / scale;
         titleFontSize' = titleFontSize / scale;
         titleLineHeight = titleFontSize' * 1.2;
         entryLineHeight = lineHeight / scale;
         titleY = r_y r + pad;
         entryStartY = titleY + titleLineHeight
     in entryStartY + real i * entryLineHeight)"

subsection \<open>Vocabulary of the statements\<close>

text \<open>The four tests \<^verbatim>\<open>part.includes(...)\<close> of the resize branch.\<close>

definition hasLeft :: "HitPart \<Rightarrow> bool" where
  "hasLeft p = str_includes (part_name p) ''left''"

definition hasRight :: "HitPart \<Rightarrow> bool" where
  "hasRight p = str_includes (part_name p) ''right''"

definition hasTop :: "HitPart \<Rightarrow> bool" where
  "hasTop p = str_includes (part_name p) ''top''"

definition hasBottom :: "HitPart \<Rightarrow> bool" where
  "hasBottom p = str_includes (part_name p) ''bottom''"

text \<open>
  The edges opposite to the dragged part are where the gesture found them: \<open>rz_init\<close>
  holds the geometry at the start of the gesture.
\<close>

definition pinned :: "ResizeState \<Rightarrow> Rectangle \<Rightarrow> bool" where
  "pinned rz r =
    ((hasLeft (rz_part rz) \<longrightarrow> r_x r + r_width r = i_x (rz_init rz) + i_w (rz_init rz))
     \<and> (hasRight (rz_part rz) \<longrightarrow> r_x r = i_x (rz_init rz))
     \<and> (hasTop (rz_part rz) \<longrightarrow> r_y r + r_height r = i_y (rz_init rz) + i_h (rz_init rz))
     \<and> (hasBottom (rz_part rz) \<longrightarrow> r_y r = i_y (rz_init rz)))"

text \<open>The two floors of a resize at a given scale.\<close>

definition floors :: "Rectangle \<Rightarrow> real \<Rightarrow> bool" where
  "floors r scale =
    (r_width r \<ge> minWidth / scale \<and> r_height r \<ge> calculateMinimumHeight r scale)"

text \<open>A list of pointer-move events, each given by pointer id and position.\<close>

definition pointerMoves :: "(int \<times> real \<times> real) list \<Rightarrow> Event list" where
  "pointerMoves ms = map (\<lambda>(i, x, y). PointerMove i x y) ms"

text \<open>
  What holds of the chart from the pointer-down that starts a resize, through every
  pointer-move that follows it: the gesture field, the tracked pointer ids and the
  transform stay, two pointers are never tracked, and the opposite edges are pinned.
\<close>

definition resizing_inv :: "ResizeState \<Rightarrow> Chart \<Rightarrow> Chart \<Rightarrow> bool" where
  "resizing_inv rz s0 s =
    (resizingRect s = Some rz \<and> length (pointers s) \<noteq> 2
     \<and> map fst (pointers s) = map fst (pointers s0) \<and> transform s = transform s0
     \<and> pinned rz (objs s (rz_rect rz)))"

text \<open>How many gesture fields are set.\<close>

definition singlePointerGestures :: "Chart \<Rightarrow> nat" where
  "singlePointerGestures s =
    (if draggingRect s \<noteq> None then 1 else 0) + (if resizingRect s \<noteq> None then 1 else 0)
    + (if panning s \<noteq> None then 1 else 0)"

definition activeGestures :: "Chart \<Rightarrow> nat" where
  "activeGestures s = singlePointerGestures s + (if pinch s \<noteq> None then 1 else 0)"

definition idle :: "Chart \<Rightarrow> bool" where
  "idle s = (pointers s = [] \<and> activeGestures s = 0)"

text \<open>
  A trace is disciplined when each pointer-down carries an id that is not tracked and
  arrives while fewer than two pointers are tracked.
\<close>

fun admissible :: "Chart \<Rightarrow> Event \<Rightarrow> bool" where
  "admissible s (PointerDown i x y) = (map_of (pointers s) i = None \<and> length (pointers s) < 2)"
| "admissible s (PointerMove i x y) = True"
| "admissible s (PointerUp i x y) = True"
| "admissible s (PointerCancel i x y) = True"
| "admissible s (Wheel d x y) = True"

fun disciplined :: "Chart \<Rightarrow> Event list \<Rightarrow> bool" where
  "disciplined s [] = True"
| "disciplined s (e # evs) = (admissible s e \<and> disciplined (handleEvent s e) evs)"

definition gesture_inv :: "Chart \<Rightarrow> bool" where
  "gesture_inv s =
    (distinct (map fst (pointers s)) \<and> length (pointers s) \<le> 2
     \<and> (length (pointers s) = 0 \<longrightarrow> singlePointerGestures s = 0 \<and> pinch s = None)
     \<and> (length (pointers s) = 1 \<longrightarrow> singlePointerGestures s = 1 \<and> pinch s = None)
     \<and> (length (pointers s) = 2 \<longrightarrow> singlePointerGestures s = 1 \<and> pinch s \<noteq> None))"

subsection \<open>Sample charts\<close>

text \<open>
  A chart of 800 by 600 pixels with one rectangle \<open>a\<close> of two entries, placed at the
  world origin (both random numbers 0), and a chart with the rectangles \<open>x\<close> and \<open>y\<close>
  and one connection between their entries.
\<close>

definition sampleData :: RectData where
  "sampleData =
    \<lparr>d_id = ''a'', d_title = ''A'',
     d_entries = [\<lparr>e_id = ''e1'', e_left = ''l1'', e_right = ''r1''\<rparr>,
                  \<lparr>e_id = ''e2'', e_left = ''l2'', e_right = ''r2''\<rparr>]\<rparr>"

definition sampleChart :: Chart where
  "sampleChart = snd (addRectangle sampleData 0 0 (emptyChart 800 600))"

definition dataX :: RectData where
  "dataX = \<lparr>d_id = ''x'', d_title = ''X'',
            d_entries = [\<lparr>e_id = ''e1'', e_left = ''l'', e_right = ''r''\<rparr>]\<rparr>"

definition dataY :: RectData where
  "dataY = \<lparr>d_id = ''y'', d_title = ''Y'',
            d_entries = [\<lparr>e_id = ''e2'', e_left = ''l'', e_right = ''r''\<rparr>]\<rparr>"

definition chartXY :: Chart where
  "chartXY =
    snd (addConnection \<lparr>rectId = ''x'', entryId = Some ''e1''\<rparr>
                       \<lparr>rectId = ''y'', entryId = Some ''e2''\<rparr> ''c1''
          (snd (addRectangle dataY (1 / 2) (1 / 2)
            (snd (addRectangle dataX 0 0 (emptyChart 800 600))))))"

text \<open>Two pointers down on the empty chart, ten pixels apart.\<close>

definition twoPointers :: Chart where
  "twoPointers = run (emptyChart 800 600) [PointerDown 1 0 0, PointerDown 2 10 0]"

text \<open>One pointer down on the sample chart, away from its rectangle: a pan.\<close>

definition panStart :: Chart where
  "panStart = run sampleChart [PointerDown 1 500 500]"

section \<open>Auxiliary facts\<close>

subsection \<open>Association lists\<close>

lemma length_update:
  "length (AList.update k v al) = (if k \<in> fst ` set al then length al else Suc (length al))"
  by (induction al) auto

lemma length_delete:
  "distinct (map fst al) \<Longrightarrow>
   length (AList.delete k al) = (if k \<in> fst ` set al then length al - 1 else length al)"
proof (induction al)
  case Nil
  then show ?case by simp
next
  case (Cons p al)
  then have ih: "length (AList.delete k al) = (if k \<in> fst ` set al then length al - 1 else length al)"
    and np: "fst p \<notin> fst ` set al" by simp_all
  show ?case
  proof (cases "fst p = k")
    case True
    with np ih show ?thesis by (simp add: AList.delete_eq case_prod_beta)
  next
    case False
    have "k \<in> fst ` set al \<Longrightarrow> 0 < length al" by (cases al) auto
    with False ih show ?thesis by (auto simp: AList.delete_eq case_prod_beta)
  qed
qed

lemma update_mem: "(k, v) \<in> set (AList.update k v al)"
  by (induction al) auto

lemma update_in_place:
  "map_of al k = Some old \<Longrightarrow>
   \<exists>i<length al. al ! i = (k, old) \<and> (\<forall>j<i. fst (al ! j) \<noteq> k)
      \<and> AList.update k v al = al[i := (k, v)]"
proof (induction al)
  case Nil
  then show ?case by simp
next
  case (Cons p al)
  show ?case
  proof (cases "fst p = k")
    case True
    with Cons.prems have "p = (k, old)" by (cases p) simp
    then have "(p # al) ! 0 = (k, old) \<and> AList.update k v (p # al) = (p # al)[0 := (k, v)]"
      by simp
    then show ?thesis by (intro exI[of _ 0]) simp
  next
    case False
    with Cons.prems have "map_of al k = Some old" by (cases p) (simp split: if_splits)
    from Cons.IH[OF this] obtain i where i: "i < length al" "al ! i = (k, old)"
      "\<forall>j<i. fst (al ! j) \<noteq> k" "AList.update k v al = al[i := (k, v)]" by blast
    have "\<forall>j<Suc i. fst ((p # al) ! j) \<noteq> k"
      using False i(3) by (auto simp: nth_Cons split: nat.splits)
    with i False show ?thesis
      by (intro exI[of _ "Suc i"]) (cases p, simp)
  qed
qed

lemma tracked_length:
  assumes "map_of (pointers s) pid \<noteq> None"
  shows "length (AList.update pid sp (pointers s)) = length (pointers s)"
proof -
  from assms have "pid \<in> fst ` set (pointers s)"
    by (simp add: map_of_eq_None_iff)
  then show ?thesis by (simp add: length_update)
qed

subsection \<open>Searching the entries\<close>

lemma findIndex_bounds: "- 1 \<le> findIndex P xs \<and> findIndex P xs < int (length xs)"
  by (induction xs) (auto simp: Let_def)

lemma findIndex_neg_iff: "findIndex P xs < 0 \<longleftrightarrow> (\<forall>x\<in>set xs. \<not> P x)"
  using findIndex_bounds[of P] by (induction xs) (auto simp: Let_def)

lemma findIndex_first:
  "0 \<le> findIndex P xs \<Longrightarrow>
     nat (findIndex P xs) < length xs \<and> P (xs ! nat (findIndex P xs))
     \<and> (\<forall>j<nat (findIndex P xs). \<not> P (xs ! j))"
proof (induction xs)
  case Nil
  then show ?case by simp
next
  case (Cons x xs)
  show ?case
  proof (cases "P x")
    case True
    then show ?thesis by simp
  next
    case False
    with Cons.prems have ge: "0 \<le> findIndex P xs"
      and eq: "findIndex P (x # xs) = findIndex P xs + 1"
      by (auto simp: Let_def split: if_splits)
    from Cons.IH[OF ge] have ih: "nat (findIndex P xs) < length xs"
      "P (xs ! nat (findIndex P xs))" "\<forall>j<nat (findIndex P xs). \<not> P (xs ! j)" by auto
    have n: "nat (findIndex P (x # xs)) = Suc (nat (findIndex P xs))"
      using ge eq by simp
    show ?thesis unfolding n using ih False
      by (auto simp: nth_Cons split: nat.splits)
  qed
qed

subsection \<open>The bands of the hit test\<close>

lemmas band_defs =
  inX_def inY_def nearLeft_def nearRight_def nearTop_def nearBottom_def edgeThreshold_def

lemma mid_left:
  "2 * edgeThreshold \<le> r_height r \<Longrightarrow>
   getHitPart r (r_x r) (r_y r + r_height r / 2) = Some Left"
  by (simp add: getHitPart_def band_defs)

lemma mid_right:
  "2 * edgeThreshold \<le> r_height r \<Longrightarrow> 2 * edgeThreshold \<le> r_width r \<Longrightarrow>
   getHitPart r (r_x r + r_width r) (r_y r + r_height r / 2) = Some Right"
  by (simp add: getHitPart_def band_defs)

lemma mid_top:
  "2 * edgeThreshold \<le> r_width r \<Longrightarrow>
   getHitPart r (r_x r + r_width r / 2) (r_y r) = Some Top"
  by (simp add: getHitPart_def band_defs)

lemma mid_bottom:
  "2 * edgeThreshold \<le> r_height r \<Longrightarrow> 2 * edgeThreshold \<le> r_width r \<Longrightarrow>
   getHitPart r (r_x r + r_width r / 2) (r_y r + r_height r) = Some Bottom"
  by (simp add: getHitPart_def band_defs)

lemma near_left_right_excl:
  "2 * edgeThreshold \<le> r_width r \<Longrightarrow> nearLeft r px py \<Longrightarrow> \<not> nearRight r px py"
  by (simp add: band_defs) linarith

lemma near_top_bottom_excl:
  "2 * edgeThreshold \<le> r_height r \<Longrightarrow> nearTop r px py \<Longrightarrow> \<not> nearBottom r px py"
  by (simp add: band_defs) linarith

lemma corners:
  assumes "2 * edgeThreshold \<le> r_width r" "2 * edgeThreshold \<le> r_height r"
  shows "nearLeft r px py \<and> nearTop r px py \<longrightarrow> getHitPart r px py = Some TopLeft"
    "nearRight r px py \<and> nearTop r px py \<longrightarrow> getHitPart r px py = Some TopRight"
    "nearLeft r px py \<and> nearBottom r px py \<longrightarrow> getHitPart r px py = Some BottomLeft"
    "nearRight r px py \<and> nearBottom r px py \<longrightarrow> getHitPart r px py = Some BottomRight"
  using near_left_right_excl[OF assms(1), of px py] near_top_bottom_excl[OF assms(2), of px py]
  unfolding getHitPart_def by (cases "nearLeft r px py"; cases "nearTop r px py"; simp)+

lemma inside_no_band:
  "getHitPart r px py = Some Inside \<Longrightarrow>
     inX r px \<and> inY r py
     \<and> \<not> nearLeft r px py \<and> \<not> nearRight r px py \<and> \<not> nearTop r px py \<and> \<not> nearBottom r px py"
  unfolding getHitPart_def
  by (cases "nearLeft r px py"; cases "nearRight r px py"; cases "nearTop r px py";
      cases "nearBottom r px py"; simp split: if_splits)

lemma inside_strict:
  assumes "getHitPart r px py = Some Inside"
  shows "r_x r < px \<and> px < r_x r + r_width r \<and> r_y r < py \<and> py < r_y r + r_height r"
proof -
  from inside_no_band[OF assms] have b: "inX r px" "inY r py" "\<not> nearLeft r px py"
    "\<not> nearRight r px py" "\<not> nearTop r px py" "\<not> nearBottom r px py" by auto
  from b(1,2,3) have 1: "r_x r < px" by (simp add: band_defs) linarith
  from b(1,2,4) have 2: "px < r_x r + r_width r" by (simp add: band_defs) linarith
  from b(1,2,5) have 3: "r_y r < py" by (simp add: band_defs) linarith
  from b(1,2,6) have 4: "py < r_y r + r_height r" by (simp add: band_defs) linarith
  from 1 2 3 4 show ?thesis by simp
qed

subsection \<open>What the handlers leave unchanged\<close>

lemma hypot_pos_iff: "0 < hypot dx dy \<longleftrightarrow> dx \<noteq> 0 \<or> dy \<noteq> 0"
proof -
  have "0 < dx * dx + dy * dy \<longleftrightarrow> dx \<noteq> 0 \<or> dy \<noteq> 0"
    by (metis add_nonneg_eq_0_iff less_eq_real_def mult_eq_0_iff not_less zero_le_square sum_squares_gt_zero_iff)
  then show ?thesis by (simp add: hypot_def)
qed

lemma hypot_axis: "hypot d 0 = \<bar>d\<bar>"
  by (simp add: hypot_def)

lemma updateCursor_fields:
  "pointers (updateCursor sp s) = pointers s"
  "draggingRect (updateCursor sp s) = draggingRect s"
  "resizingRect (updateCursor sp s) = resizingRect s"
  "panning (updateCursor sp s) = panning s"
  "pinch (updateCursor sp s) = pinch s"
  "transform (updateCursor sp s) = transform s"
  "objs (updateCursor sp s) = objs s"
  by (simp_all add: updateCursor_def Let_def split: option.splits prod.splits)

lemma branch_fields:
  "pointers (pinchMove p s) = pointers s" "draggingRect (pinchMove p s) = draggingRect s"
  "resizingRect (pinchMove p s) = resizingRect s" "panning (pinchMove p s) = panning s"
  "pinch (pinchMove p s) = pinch s"
  "pointers (resizeMove rz sp s) = pointers s" "draggingRect (resizeMove rz sp s) = draggingRect s"
  "resizingRect (resizeMove rz sp s) = resizingRect s" "panning (resizeMove rz sp s) = panning s"
  "pinch (resizeMove rz sp s) = pinch s"
  "pointers (dragMove d sp s) = pointers s" "draggingRect (dragMove d sp s) = draggingRect s"
  "resizingRect (dragMove d sp s) = resizingRect s" "panning (dragMove d sp s) = panning s"
  "pinch (dragMove d sp s) = pinch s"
  "pointers (panMove pn sp s) = pointers s" "draggingRect (panMove pn sp s) = draggingRect s"
  "resizingRect (panMove pn sp s) = resizingRect s" "panning (panMove pn sp s) = panning s"
  "pinch (panMove pn sp s) = pinch s"
  by (simp_all add: pinchMove_def resizeMove_def dragMove_def panMove_def Let_def)

lemma handlePointerMove_fields:
  "map fst (pointers (handlePointerMove pid cx cy s)) = map fst (pointers s)"
  "draggingRect (handlePointerMove pid cx cy s) = draggingRect s"
  "resizingRect (handlePointerMove pid cx cy s) = resizingRect s"
  "panning (handlePointerMove pid cx cy s) = panning s"
  "pinch (handlePointerMove pid cx cy s) = pinch s"
proof -
  have k: "map_of (pointers s) pid \<noteq> None \<Longrightarrow>
      map fst (AList.update pid sp (pointers s)) = map fst (pointers s)" for sp
    by (simp add: update_keys map_of_eq_None_iff)
  show "map fst (pointers (handlePointerMove pid cx cy s)) = map fst (pointers s)"
    using k by (cases "map_of (pointers s) pid")
      (simp_all add: handlePointerMove_def Let_def updateCursor_fields branch_fields
         split: option.splits)
  show "draggingRect (handlePointerMove pid cx cy s) = draggingRect s"
    by (simp add: handlePointerMove_def Let_def updateCursor_fields branch_fields
         split: option.splits)
  show "resizingRect (handlePointerMove pid cx cy s) = resizingRect s"
    by (simp add: handlePointerMove_def Let_def updateCursor_fields branch_fields
         split: option.splits)
  show "panning (handlePointerMove pid cx cy s) = panning s"
    by (simp add: handlePointerMove_def Let_def updateCursor_fields branch_fields
         split: option.splits)
  show "pinch (handlePointerMove pid cx cy s) = pinch s"
    by (simp add: handlePointerMove_def Let_def updateCursor_fields branch_fields
         split: option.splits)
qed

lemma handlePointerMove_tracked:
  assumes "map_of (pointers s) pid \<noteq> None"
  shows "handlePointerMove pid cx cy s =
    (case (if length (pointers s) = 2 then pinch s else None) of
       Some p \<Rightarrow> pinchMove p (s\<lparr>pointers := AList.update pid \<lparr>p_x = cx, p_y = cy\<rparr> (pointers s)\<rparr>)
     | None \<Rightarrow>
        (case resizingRect s of
           Some rz \<Rightarrow> resizeMove rz \<lparr>p_x = cx, p_y = cy\<rparr>
                        (s\<lparr>pointers := AList.update pid \<lparr>p_x = cx, p_y = cy\<rparr> (pointers s)\<rparr>)
         | None \<Rightarrow>
            (case draggingRect s of
               Some d \<Rightarrow> dragMove d \<lparr>p_x = cx, p_y = cy\<rparr>
                          (s\<lparr>pointers := AList.update pid \<lparr>p_x = cx, p_y = cy\<rparr> (pointers s)\<rparr>)
             | None \<Rightarrow>
                (case panning s of
                   Some pn \<Rightarrow> panMove pn \<lparr>p_x = cx, p_y = cy\<rparr>
                               (s\<lparr>pointers := AList.update pid \<lparr>p_x = cx, p_y = cy\<rparr> (pointers s)\<rparr>)
                 | None \<Rightarrow> s\<lparr>pointers := AList.update pid \<lparr>p_x = cx, p_y = cy\<rparr> (pointers s)\<rparr>))))"
proof -
  from assms obtain q where "map_of (pointers s) pid = Some q" by auto
  then show ?thesis
    by (simp add: handlePointerMove_def Let_def tracked_length[OF assms] split: option.splits)
qed

lemma handlePointerMove_untracked:
  "map_of (pointers s) pid = None \<Longrightarrow>
   handlePointerMove pid cx cy s = updateCursor \<lparr>p_x = cx, p_y = cy\<rparr> s"
  by (simp add: handlePointerMove_def)

lemma handlePointerMove_pinch:
  assumes "pinch s = Some p" "map_of (pointers s) pid \<noteq> None" "length (pointers s) = 2"
  shows "handlePointerMove pid cx cy s =
         pinchMove p (s\<lparr>pointers := AList.update pid \<lparr>p_x = cx, p_y = cy\<rparr> (pointers s)\<rparr>)"
  using assms(1,3) by (simp add: handlePointerMove_tracked[OF assms(2)])

lemma handlePointerMove_other_scale:
  assumes "\<not> (pinch s \<noteq> None \<and> map_of (pointers s) pid \<noteq> None \<and> length (pointers s) = 2)"
  shows "t_scale (transform (handlePointerMove pid cx cy s)) = t_scale (transform s)"
proof (cases "map_of (pointers s) pid = None")
  case True
  then show ?thesis by (simp add: handlePointerMove_untracked updateCursor_fields)
next
  case False
  with assms have "(if length (pointers s) = 2 then pinch s else None) = None"
    by auto
  then show ?thesis
    by (simp add: handlePointerMove_tracked[OF False] resizeMove_def dragMove_def panMove_def Let_def
        split: option.splits)
qed

subsection \<open>The invariant of disciplined traces\<close>

lemma inv_move: "gesture_inv s \<Longrightarrow> gesture_inv (handlePointerMove pid cx cy s)"
proof -
  assume a: "gesture_inv s"
  have l: "length (pointers (handlePointerMove pid cx cy s)) = length (pointers s)"
    using handlePointerMove_fields(1)[of pid cx cy s] by (metis length_map)
  show ?thesis
    using a unfolding gesture_inv_def singlePointerGestures_def l handlePointerMove_fields
    by simp
qed

lemma inv_wheel: "gesture_inv s \<Longrightarrow> gesture_inv (handleWheel d cx cy s)"
  by (simp add: gesture_inv_def singlePointerGestures_def handleWheel_def Let_def)

lemma inv_up: 
  assumes "gesture_inv s" shows "gesture_inv (handlePointerUp pid cx cy s)"
proof -
  from assms have d: "distinct (map fst (pointers s))" by (simp add: gesture_inv_def)
  note ld = length_delete[OF d, of pid]
  have dd: "distinct (map fst (AList.delete pid (pointers s)))"
    using d by (rule distinct_delete)
  have "pid \<in> fst ` set (pointers s) \<longrightarrow> length (pointers s) = 1 \<or> length (pointers s) = 2"
  proof
    assume "pid \<in> fst ` set (pointers s)"
    then have "0 < length (pointers s)" by (cases "pointers s") auto
    moreover from assms have "length (pointers s) \<le> 2" by (simp add: gesture_inv_def)
    ultimately show "length (pointers s) = 1 \<or> length (pointers s) = 2" by linarith
  qed
  then consider (absent) "pid \<notin> fst ` set (pointers s)"
    | (two) "pid \<in> fst ` set (pointers s)" "length (pointers s) = 2"
    | (one) "pid \<in> fst ` set (pointers s)" "length (pointers s) = 1"
    by blast
  then show ?thesis
  proof cases
    case absent
    with ld have l: "length (AList.delete pid (pointers s)) = length (pointers s)" by simp
    show ?thesis using assms dd l
      by (auto simp: gesture_inv_def handlePointerUp_def Let_def updateCursor_fields
          singlePointerGestures_def)
  next
    case two
    with ld have l: "length (AList.delete pid (pointers s)) = 1" by simp
    show ?thesis using assms dd l two
      by (simp add: gesture_inv_def handlePointerUp_def Let_def updateCursor_fields
          singlePointerGestures_def)
  next
    case one
    with ld have l: "length (AList.delete pid (pointers s)) = 0" by simp
    show ?thesis using assms dd l one
      by (simp add: gesture_inv_def handlePointerUp_def Let_def updateCursor_fields
          singlePointerGestures_def)
  qed
qed

lemma inv_down:
  assumes "gesture_inv s" "map_of (pointers s) pid = None" "length (pointers s) < 2"
  shows "gesture_inv (handlePointerDown pid cx cy s)"
proof -
  from assms(2) have nk: "pid \<notin> fst ` set (pointers s)" by (simp add: map_of_eq_None_iff)
  then have l: "length (AList.update pid sp (pointers s)) = Suc (length (pointers s))" for sp
    by (simp add: length_update)
  from assms(1) have d: "distinct (map fst (AList.update pid sp (pointers s)))" for sp
    by (simp add: gesture_inv_def distinct_update)
  from assms(3) consider (zero) "length (pointers s) = 0" | (one) "length (pointers s) = 1"
    by linarith
  then show ?thesis
  proof cases
    case zero
    with assms(1) have g: "draggingRect s = None" "resizingRect s = None" "panning s = None" "pinch s = None"
      by (auto simp: gesture_inv_def singlePointerGestures_def split: if_splits)
    show ?thesis using zero g d l
      by (simp add: gesture_inv_def handlePointerDown_def Let_def singlePointerGestures_def
          split: option.splits prod.splits)
  next
    case one
    with assms(1) have g: "singlePointerGestures s = 1"
      by (simp add: gesture_inv_def)
    show ?thesis using one g d l
      by (simp add: gesture_inv_def handlePointerDown_def Let_def singlePointerGestures_def)
  qed
qed

lemma inv_event: "gesture_inv s \<Longrightarrow> admissible s e \<Longrightarrow> gesture_inv (handleEvent s e)"
  by (cases e) (simp_all add: inv_down inv_move inv_up inv_wheel)

lemma inv_run: "gesture_inv s \<Longrightarrow> disciplined s evs \<Longrightarrow> gesture_inv (run s evs)"
  unfolding run_def by (induction evs arbitrary: s) (simp_all add: inv_event)

lemma idle_inv: "idle s \<Longrightarrow> gesture_inv s"
  by (simp add: idle_def gesture_inv_def activeGestures_def split: if_splits)

subsection \<open>The resize branch\<close>

lemma includes_left: "str_includes (part_name p) ''left'' = (p \<in> {Left, TopLeft, BottomLeft})"
  by (cases p) simp_all
lemma includes_right: "str_includes (part_name p) ''right'' = (p \<in> {Right, TopRight, BottomRight})"
  by (cases p) simp_all
lemma includes_top: "str_includes (part_name p) ''top'' = (p \<in> {Top, TopLeft, TopRight})"
  by (cases p) simp_all
lemma includes_bottom: "str_includes (part_name p) ''bottom'' = (p \<in> {Bottom, BottomLeft, BottomRight})"
  by (cases p) simp_all

lemma part_left_right_excl: "hasLeft p \<Longrightarrow> \<not> hasRight p"
  by (cases p) (simp_all add: hasLeft_def hasRight_def)
lemma part_top_bottom_excl: "hasTop p \<Longrightarrow> \<not> hasBottom p"
  by (cases p) (simp_all add: hasTop_def hasBottom_def)

lemma calculateMinimumHeight_data:
  "r_data r' = r_data r \<Longrightarrow> calculateMinimumHeight r' sc = calculateMinimumHeight r sc"
  by (simp add: calculateMinimumHeight_def)

lemma resizeMove_other:
  "pointers (resizeMove rz sp s) = pointers s" "transform (resizeMove rz sp s) = transform s"
  "resizingRect (resizeMove rz sp s) = resizingRect s" 
  "r_data (objs (resizeMove rz sp s) (rz_rect rz)) = r_data (objs s (rz_rect rz))"
  by (simp_all add: resizeMove_def Let_def)

lemma resizeMove_width:
  "r_width (objs (resizeMove rz sp s) (rz_rect rz)) \<ge> minWidth / t_scale (transform s)"
  by (simp add: resizeMove_def Let_def)

lemma resizeMove_height:
  "r_height (objs (resizeMove rz sp s) (rz_rect rz))
     \<ge> calculateMinimumHeight (objs s (rz_rect rz)) (t_scale (transform s))"
  by (simp add: resizeMove_def Let_def)

lemma resizeMove_floors:
  "floors (objs (resizeMove rz sp s) (rz_rect rz)) (t_scale (transform (resizeMove rz sp s)))"
  unfolding floors_def resizeMove_other(2)
  using resizeMove_width[where s=s and rz=rz and sp=sp]
    resizeMove_height[where s=s and rz=rz and sp=sp]
    calculateMinimumHeight_data[OF resizeMove_other(4), where rz1=rz and sp1=sp and s1=s]
  by simp

lemma resizeMove_left:
  assumes "hasLeft (rz_part rz)"
    and "r_x (objs s (rz_rect rz)) + r_width (objs s (rz_rect rz)) = i_x (rz_init rz) + i_w (rz_init rz)"
  shows "r_x (objs (resizeMove rz sp s) (rz_rect rz)) + r_width (objs (resizeMove rz sp s) (rz_rect rz))
       = i_x (rz_init rz) + i_w (rz_init rz)"
  using assms part_left_right_excl[OF assms(1)]
  by (simp add: resizeMove_def Let_def hasLeft_def hasRight_def)

lemma resizeMove_right:
  assumes "hasRight (rz_part rz)"
  shows "r_x (objs (resizeMove rz sp s) (rz_rect rz)) = r_x (objs s (rz_rect rz))"
  using assms part_left_right_excl[of "rz_part rz"]
  by (auto simp add: resizeMove_def Let_def hasLeft_def hasRight_def)

lemma resizeMove_top:
  assumes "hasTop (rz_part rz)"
    and "r_y (objs s (rz_rect rz)) + r_height (objs s (rz_rect rz)) = i_y (rz_init rz) + i_h (rz_init rz)"
  shows "r_y (objs (resizeMove rz sp s) (rz_rect rz)) + r_height (objs (resizeMove rz sp s) (rz_rect rz))
       = i_y (rz_init rz) + i_h (rz_init rz)"
  using assms part_top_bottom_excl[OF assms(1)]
  by (simp add: resizeMove_def Let_def hasTop_def hasBottom_def)

lemma resizeMove_bottom:
  assumes "hasBottom (rz_part rz)"
  shows "r_y (objs (resizeMove rz sp s) (rz_rect rz)) = r_y (objs s (rz_rect rz))"
  using assms part_top_bottom_excl[of "rz_part rz"]
  by (auto simp add: resizeMove_def Let_def hasTop_def hasBottom_def)

lemma resizeMove_pinned:
  "pinned rz (objs s (rz_rect rz)) \<Longrightarrow> pinned rz (objs (resizeMove rz sp s) (rz_rect rz))"
  unfolding pinned_def
  using resizeMove_left[where s=s and rz=rz and sp=sp]
    resizeMove_right[where s=s and rz=rz and sp=sp]
    resizeMove_top[where s=s and rz=rz and sp=sp]
    resizeMove_bottom[where s=s and rz=rz and sp=sp]
  by simp

lemma handlePointerMove_resizing:
  assumes "resizingRect s = Some rz" "length (pointers s) \<noteq> 2" "map_of (pointers s) pid \<noteq> None"
  shows "handlePointerMove pid cx cy s =
         resizeMove rz \<lparr>p_x = cx, p_y = cy\<rparr>
           (s\<lparr>pointers := AList.update pid \<lparr>p_x = cx, p_y = cy\<rparr> (pointers s)\<rparr>)"
  using assms(1,2) by (simp add: handlePointerMove_tracked[OF assms(3)])

lemma resizing_inv_move:
  assumes "resizing_inv rz s0 s"
  shows "resizing_inv rz s0 (handlePointerMove pid cx cy s)"
proof (cases "map_of (pointers s) pid = None")
  case True
  with assms show ?thesis
    by (simp add: handlePointerMove_untracked resizing_inv_def updateCursor_fields)
next
  case False
  let ?s1 = "s\<lparr>pointers := AList.update pid \<lparr>p_x = cx, p_y = cy\<rparr> (pointers s)\<rparr>"
  from assms have r: "resizingRect s = Some rz" "length (pointers s) \<noteq> 2"
    "map fst (pointers s) = map fst (pointers s0)" "transform s = transform s0"
    "pinned rz (objs s (rz_rect rz))"
    by (simp_all add: resizing_inv_def)
  have m: "handlePointerMove pid cx cy s = resizeMove rz \<lparr>p_x = cx, p_y = cy\<rparr> ?s1"
    using r(1,2) False by (rule handlePointerMove_resizing)
  have k: "map fst (pointers ?s1) = map fst (pointers s)"
    using False by (simp add: update_keys map_of_eq_None_iff)
  have l: "length (pointers ?s1) = length (pointers s)"
    using tracked_length[OF False] by simp
  have p: "pinned rz (objs (resizeMove rz \<lparr>p_x = cx, p_y = cy\<rparr> ?s1) (rz_rect rz))"
    using r(5) by (intro resizeMove_pinned) simp
  show ?thesis
    unfolding m resizing_inv_def resizeMove_other
    using r k l p by simp
qed

lemma floors_move:
  assumes "resizing_inv rz s0 s"
    and "map_of (pointers s) pid \<noteq> None \<or> floors (objs s (rz_rect rz)) (t_scale (transform s))"
  shows "floors (objs (handlePointerMove pid cx cy s) (rz_rect rz))
           (t_scale (transform (handlePointerMove pid cx cy s)))"
proof (cases "map_of (pointers s) pid = None")
  case True
  with assms(2) show ?thesis
    by (simp add: handlePointerMove_untracked updateCursor_fields)
next
  case False
  from assms(1) have r: "resizingRect s = Some rz" "length (pointers s) \<noteq> 2"
    by (simp_all add: resizing_inv_def)
  show ?thesis
    unfolding handlePointerMove_resizing[OF r False] by (rule resizeMove_floors)
qed

lemma tracked_iff:
  "resizing_inv rz s0 s \<Longrightarrow> map_of (pointers s) i \<noteq> None \<longleftrightarrow> map_of (pointers s0) i \<noteq> None"
  by (simp add: resizing_inv_def map_of_eq_None_iff flip: set_map)

lemma run_moves_inv:
  "resizing_inv rz s0 s \<Longrightarrow> resizing_inv rz s0 (run s (pointerMoves ms))"
  unfolding run_def pointerMoves_def
  by (induction ms arbitrary: s) (auto simp: resizing_inv_move)

lemma run_moves_floors:
  "resizing_inv rz s0 s \<Longrightarrow>
   floors (objs s (rz_rect rz)) (t_scale (transform s))
     \<or> (\<exists>(i, x, y)\<in>set ms. map_of (pointers s0) i \<noteq> None) \<Longrightarrow>
   floors (objs (run s (pointerMoves ms)) (rz_rect rz)) (t_scale (transform (run s (pointerMoves ms))))"
proof (induction ms arbitrary: s)
  case Nil
  then show ?case by (simp add: run_def pointerMoves_def)
next
  case (Cons m ms)
  obtain i x y where m: "m = (i, x, y)" by (cases m)
  let ?s1 = "handlePointerMove i x y s"
  have inv1: "resizing_inv rz s0 ?s1" using Cons.prems(1) by (rule resizing_inv_move)
  have r: "run s (pointerMoves (m # ms)) = run ?s1 (pointerMoves ms)"
    by (simp add: run_def pointerMoves_def m)
  have "floors (objs ?s1 (rz_rect rz)) (t_scale (transform ?s1))
     \<or> (\<exists>(i, x, y)\<in>set ms. map_of (pointers s0) i \<noteq> None)"
  proof (cases "\<exists>(i, x, y)\<in>set ms. map_of (pointers s0) i \<noteq> None")
    case True
    then show ?thesis by simp
  next
    case False
    with Cons.prems(2) m have "floors (objs s (rz_rect rz)) (t_scale (transform s))
       \<or> map_of (pointers s0) i \<noteq> None" by auto
    then have "map_of (pointers s) i \<noteq> None \<or> floors (objs s (rz_rect rz)) (t_scale (transform s))"
      using tracked_iff[OF Cons.prems(1), of i] by blast
    from floors_move[OF Cons.prems(1) this] show ?thesis by simp
  qed
  from Cons.IH[OF inv1 this] show ?case unfolding r .
qed

lemma handlePointerDown_starts_resize:
  assumes "resizingRect s0 = None" "resizingRect (handlePointerDown pid cx cy s0) = Some rz"
  shows "length (pointers (handlePointerDown pid cx cy s0)) \<noteq> 2"
    "objs (handlePointerDown pid cx cy s0) = objs s0"
    "transform (handlePointerDown pid cx cy s0) = transform s0"
    "i_x (rz_init rz) = r_x (objs s0 (rz_rect rz))"
    "i_y (rz_init rz) = r_y (objs s0 (rz_rect rz))"
    "i_w (rz_init rz) = r_width (objs s0 (rz_rect rz))"
    "i_h (rz_init rz) = r_height (objs s0 (rz_rect rz))"
    "rz_part rz \<noteq> Inside"
    "rz_start rz = \<lparr>p_x = cx, p_y = cy\<rparr>"
  using assms
  by (auto simp: handlePointerDown_def Let_def split: if_splits option.splits prod.splits)

subsection \<open>The sample charts, evaluated\<close>

lemma sampleChart_fields:
  "rectangles sampleChart = [(''a'', 0)]"
  "objs sampleChart 0 = \<lparr>r_x = 0, r_y = 0, r_width = 200, r_height = 120, r_data = sampleData\<rparr>"
  "transform sampleChart = \<lparr>t_scale = 1, translateX = 0, translateY = 0\<rparr>"
  "pointers sampleChart = []" "connections sampleChart = []"
  "draggingRect sampleChart = None" "resizingRect sampleChart = None"
  "panning sampleChart = None" "pinch sampleChart = None"
  "nextRef sampleChart = 1"
  by (simp_all add: sampleChart_def sampleData_def addRectangle_def emptyChart_def rect_id_def Let_def)

lemma chartXY_fields:
  "rectangles chartXY = [(''x'', 0), (''y'', 1)]"
  "getConnections chartXY = [\<lparr>c_id = ''c1'', sideA = \<lparr>rectId = ''x'', entryId = Some ''e1''\<rparr>,
                              sideB = \<lparr>rectId = ''y'', entryId = Some ''e2''\<rparr>\<rparr>]"
  "objs chartXY 0 = \<lparr>r_x = 0, r_y = 0, r_width = 200, r_height = 120, r_data = dataX\<rparr>"
  "objs chartXY 1 = \<lparr>r_x = 300, r_y = 240, r_width = 200, r_height = 120, r_data = dataY\<rparr>"
  "transform chartXY = \<lparr>t_scale = 1, translateX = 0, translateY = 0\<rparr>"
  by (simp_all add: chartXY_def dataX_def dataY_def addRectangle_def addConnection_def
      getConnections_def emptyChart_def rect_id_def Let_def)

lemma twoPointers_fields:
  "pointers twoPointers = [(1, \<lparr>p_x = 0, p_y = 0\<rparr>), (2, \<lparr>p_x = 10, p_y = 0\<rparr>)]"
  "pinch twoPointers = Some \<lparr>startDist = 10, startScale = 1, mid = \<lparr>p_x = 5, p_y = 0\<rparr>\<rparr>"
  "panning twoPointers = Some \<lparr>pan_start = \<lparr>p_x = 0, p_y = 0\<rparr>,
      pan_initTrans = \<lparr>t_scale = 1, translateX = 0, translateY = 0\<rparr>\<rparr>"
  "draggingRect twoPointers = None" "resizingRect twoPointers = None"
  "transform twoPointers = \<lparr>t_scale = 1, translateX = 0, translateY = 0\<rparr>"
  by (simp_all add: twoPointers_def run_def emptyChart_def handlePointerDown_def hitTest_def
      screenToWorld_def hypot_axis Let_def)

lemma panStart_fields:
  "pointers panStart = [(1, \<lparr>p_x = 500, p_y = 500\<rparr>)]"
  "pinch panStart = None" "draggingRect panStart = None" "resizingRect panStart = None"
  "panning panStart = Some \<lparr>pan_start = \<lparr>p_x = 500, p_y = 500\<rparr>,
      pan_initTrans = \<lparr>t_scale = 1, translateX = 0, translateY = 0\<rparr>\<rparr>"
  "transform panStart = \<lparr>t_scale = 1, translateX = 0, translateY = 0\<rparr>"
  by (simp_all add: panStart_def run_def handlePointerDown_def hitTest_def screenToWorld_def
      getHitPart_def band_defs sampleChart_fields Let_def)

lemma twoPointers_move:
  "handlePointerMove 2 cx cy twoPointers =
     pinchMove \<lparr>startDist = 10, startScale = 1, mid = \<lparr>p_x = 5, p_y = 0\<rparr>\<rparr>
       (twoPointers\<lparr>pointers := [(1, \<lparr>p_x = 0, p_y = 0\<rparr>), (2, \<lparr>p_x = cx, p_y = cy\<rparr>)]\<rparr>)"
  by (simp add: twoPointers_fields
      handlePointerMove_pinch[where p = "\<lparr>startDist = 10, startScale = 1,
                                          mid = \<lparr>p_x = 5, p_y = 0\<rparr>\<rparr>"])

lemma twoPointers_move_transform:
  "transform (handlePointerMove 2 cx 0 twoPointers) =
     \<lparr>t_scale = \<bar>cx\<bar> / 10, translateX = 5 - 5 * (\<bar>cx\<bar> / 10), translateY = 0\<rparr>"
  by (simp add: twoPointers_move pinchMove_def screenToWorld_def twoPointers_fields hypot_axis
      Let_def)

lemma emptyChart_idle: "idle (emptyChart w h)"
  by (simp add: idle_def activeGestures_def singlePointerGestures_def emptyChart_def)

lemma down1_fields:
  "pointers (handlePointerDown 1 0 0 (emptyChart 800 600)) = [(1, \<lparr>p_x = 0, p_y = 0\<rparr>)]"
  "pinch (handlePointerDown 1 0 0 (emptyChart 800 600)) = None"
  by (simp_all add: handlePointerDown_def emptyChart_def hitTest_def Let_def)

lemma has_parts:
  "hasLeft p = (p \<in> {Left, TopLeft, BottomLeft})"
  "hasRight p = (p \<in> {Right, TopRight, BottomRight})"
  "hasTop p = (p \<in> {Top, TopLeft, TopRight})"
  "hasBottom p = (p \<in> {Bottom, BottomLeft, BottomRight})"
  by (simp_all only: hasLeft_def hasRight_def hasTop_def hasBottom_def
      includes_left includes_right includes_top includes_bottom)

lemma resizeStart_fields:
  "resizingRect (handlePointerDown 1 200 120 sampleChart) =
     Some \<lparr>rz_rect = 0, rz_part = BottomRight, rz_start = \<lparr>p_x = 200, p_y = 120\<rparr>,
           rz_init = \<lparr>i_x = 0, i_y = 0, i_w = 200, i_h = 120\<rparr>\<rparr>"
  "resizingRect (handlePointerDown 1 0 0 sampleChart) =
     Some \<lparr>rz_rect = 0, rz_part = TopLeft, rz_start = \<lparr>p_x = 0, p_y = 0\<rparr>,
           rz_init = \<lparr>i_x = 0, i_y = 0, i_w = 200, i_h = 120\<rparr>\<rparr>"
  "pointers (handlePointerDown 1 cx cy sampleChart) = [(1, \<lparr>p_x = cx, p_y = cy\<rparr>)]"
  by (simp_all add: handlePointerDown_def hitTest_def screenToWorld_def getHitPart_def band_defs
      sampleChart_fields Let_def split: option.splits)

lemma resize_bottom_right_result:
  "objs (run (handlePointerDown 1 200 120 sampleChart) (pointerMoves [(1, 0, 0)])) 0 =
     \<lparr>r_x = 0, r_y = 0, r_width = 50, r_height = 356 / 5, r_data = sampleData\<rparr>"
proof -
  let ?s = "handlePointerDown 1 200 120 sampleChart"
  have o: "objs ?s = objs sampleChart" "transform ?s = transform sampleChart"
    by (simp_all add: handlePointerDown_def Let_def split: option.splits prod.splits)
  have m: "run ?s (pointerMoves [(1, 0, 0)]) =
      resizeMove \<lparr>rz_rect = 0, rz_part = BottomRight, rz_start = \<lparr>p_x = 200, p_y = 120\<rparr>,
           rz_init = \<lparr>i_x = 0, i_y = 0, i_w = 200, i_h = 120\<rparr>\<rparr> \<lparr>p_x = 0, p_y = 0\<rparr>
        (?s\<lparr>pointers := AList.update 1 \<lparr>p_x = 0, p_y = 0\<rparr> (pointers ?s)\<rparr>)"
    by (simp add: run_def pointerMoves_def handlePointerMove_resizing resizeStart_fields)
  show ?thesis
    unfolding m
    by (simp add: resizeMove_def o sampleChart_fields calculateMinimumHeight_def sampleData_def
        minWidth_def titleFontSize_def lineHeight_def padding_def Let_def)
qed

lemma resize_top_left_result:
  "objs (run (handlePointerDown 1 0 0 sampleChart) (pointerMoves [(1, 500, 500)])) 0 =
     \<lparr>r_x = 150, r_y = 244 / 5, r_width = 50, r_height = 356 / 5, r_data = sampleData\<rparr>"
proof -
  let ?s = "handlePointerDown 1 0 0 sampleChart"
  have o: "objs ?s = objs sampleChart" "transform ?s = transform sampleChart"
    by (simp_all add: handlePointerDown_def Let_def split: option.splits prod.splits)
  have m: "run ?s (pointerMoves [(1, 500, 500)]) =
      resizeMove \<lparr>rz_rect = 0, rz_part = TopLeft, rz_start = \<lparr>p_x = 0, p_y = 0\<rparr>,
           rz_init = \<lparr>i_x = 0, i_y = 0, i_w = 200, i_h = 120\<rparr>\<rparr> \<lparr>p_x = 500, p_y = 500\<rparr>
        (?s\<lparr>pointers := AList.update 1 \<lparr>p_x = 500, p_y = 500\<rparr> (pointers ?s)\<rparr>)"
    by (simp add: run_def pointerMoves_def handlePointerMove_resizing resizeStart_fields)
  show ?thesis
    unfolding m
    by (simp add: resizeMove_def o sampleChart_fields calculateMinimumHeight_def sampleData_def
        minWidth_def titleFontSize_def lineHeight_def padding_def Let_def)
qed

section \<open>Entities and connections\<close>

text \<open>
  Claim C2: for every payload \<open>data\<close>, \<^verbatim>\<open>addRectangle(data)\<close> returns \<open>data.id\<close>, the
  caller-visible id of the new rectangle.

  The method stores the rectangle under \<open>data.id\<close> but has no \<^verbatim>\<open>return\<close> statement, so the
  call evaluates to \<^verbatim>\<open>undefined\<close>. On the empty chart, for the payload with id \<open>a\<close>, the
  returned value is not that id, although the rectangle is stored under it.
\<close>

theorem addRectangle_returns_undefined:
  "fst (addRectangle \<lparr>d_id = ''a'', d_title = ''T'', d_entries = []\<rparr> (1 / 2) (1 / 2)
         (emptyChart 800 600)) = None
   \<and> fst (addRectangle \<lparr>d_id = ''a'', d_title = ''T'', d_entries = []\<rparr> (1 / 2) (1 / 2)
         (emptyChart 800 600)) \<noteq> Some ''a''
   \<and> map_of (rectangles (snd (addRectangle \<lparr>d_id = ''a'', d_title = ''T'', d_entries = []\<rparr>
         (1 / 2) (1 / 2) (emptyChart 800 600)))) ''a'' = Some 0"
  by (simp add: addRectangle_def emptyChart_def rect_id_def Let_def)

text \<open>
  Claim C8: an endpoint whose \<open>rectId\<close> is absent from the entity map resolves to the
  world origin, and so does the end of the curve that \<^verbatim>\<open>drawConnections\<close> strokes for a
  connection with such an endpoint; and \<^verbatim>\<open>removeRectangle\<close> leaves the connections as they
  are, so that every connection added before, also one that names the removed id, is
  still returned by \<^verbatim>\<open>getConnections\<close>, and its endpoint on the removed rectangle resolves
  to the origin.
\<close>

theorem dangling_endpoint_origin:
  "(map_of (rectangles s) (rectId ep) = None \<longrightarrow>
      getEndpointPosition ep isFrom s = \<lparr>p_x = 0, p_y = 0\<rparr>)
   \<and> (map_of (rectangles s) (rectId (sideA conn)) = None \<longrightarrow>
        cv_from (connectionCurve conn s) = \<lparr>p_x = 0, p_y = 0\<rparr>)
   \<and> (map_of (rectangles s) (rectId (sideB conn)) = None \<longrightarrow>
        cv_to (connectionCurve conn s) = \<lparr>p_x = 0, p_y = 0\<rparr>)
   \<and> getConnections (snd (removeRectangle k s)) = getConnections s
   \<and> (rectId ep = k \<longrightarrow>
        getEndpointPosition ep isFrom (snd (removeRectangle k s)) = \<lparr>p_x = 0, p_y = 0\<rparr>)
   \<and> \<lparr>c_id = uuid, sideA = a, sideB = b\<rparr>
        \<in> set (getConnections (snd (removeRectangle k (snd (addConnection a b uuid s)))))"
proof -
  have 1: "map_of (rectangles s) (rectId ep) = None \<longrightarrow>
      getEndpointPosition ep isFrom s = \<lparr>p_x = 0, p_y = 0\<rparr>"
    by (simp add: getEndpointPosition_def)
  have 2: "getConnections (snd (removeRectangle k s)) = getConnections s" for s
    by (simp add: getConnections_def removeRectangle_def)
  have 3: "rectId ep = k \<longrightarrow>
        getEndpointPosition ep isFrom (snd (removeRectangle k s)) = \<lparr>p_x = 0, p_y = 0\<rparr>"
    by (simp add: getEndpointPosition_def removeRectangle_def delete_conv')
  have "(uuid, \<lparr>c_id = uuid, sideA = a, sideB = b\<rparr>)
          \<in> set (connections (snd (addConnection a b uuid s)))"
    by (simp add: addConnection_def update_mem)
  then have 4: "\<lparr>c_id = uuid, sideA = a, sideB = b\<rparr>
          \<in> set (getConnections (snd (addConnection a b uuid s)))"
    unfolding getConnections_def by force
  have 5: "map_of (rectangles s) (rectId (sideA conn)) = None \<longrightarrow>
        cv_from (connectionCurve conn s) = \<lparr>p_x = 0, p_y = 0\<rparr>"
    by (simp add: connectionCurve_def getEndpointPosition_def Let_def)
  have 6: "map_of (rectangles s) (rectId (sideB conn)) = None \<longrightarrow>
        cv_to (connectionCurve conn s) = \<lparr>p_x = 0, p_y = 0\<rparr>"
    by (simp add: connectionCurve_def getEndpointPosition_def Let_def)
  from 1 2 3 4 5 6 show ?thesis by simp
qed

theorem dangling_endpoint_origin_witness:
  "fst (removeRectangle ''x'' chartXY)
   \<and> map_of (rectangles (snd (removeRectangle ''x'' chartXY))) ''x'' = None
   \<and> getEndpointPosition \<lparr>rectId = ''x'', entryId = Some ''e1''\<rparr> True
        (snd (removeRectangle ''x'' chartXY)) = \<lparr>p_x = 0, p_y = 0\<rparr>
   \<and> getConnections (snd (removeRectangle ''x'' chartXY)) =
        [\<lparr>c_id = ''c1'', sideA = \<lparr>rectId = ''x'', entryId = Some ''e1''\<rparr>,
          sideB = \<lparr>rectId = ''y'', entryId = Some ''e2''\<rparr>\<rparr>]
   \<and> cv_from (connectionCurve
         \<lparr>c_id = ''c1'', sideA = \<lparr>rectId = ''x'', entryId = Some ''e1''\<rparr>,
           sideB = \<lparr>rectId = ''y'', entryId = Some ''e2''\<rparr>\<rparr>
         (snd (removeRectangle ''x'' chartXY))) = \<lparr>p_x = 0, p_y = 0\<rparr>
   \<and> cv_to (connectionCurve
         \<lparr>c_id = ''c2'', sideA = \<lparr>rectId = ''y'', entryId = None\<rparr>,
           sideB = \<lparr>rectId = ''x'', entryId = None\<rparr>\<rparr>
         (snd (removeRectangle ''x'' chartXY))) = \<lparr>p_x = 0, p_y = 0\<rparr>"
proof -
  let ?s = "snd (removeRectangle ''x'' chartXY)"
  let ?ep = "\<lparr>rectId = ''x'', entryId = Some ''e1''\<rparr>"
  let ?c1 = "\<lparr>c_id = ''c1'', sideA = \<lparr>rectId = ''x'', entryId = Some ''e1''\<rparr>,
           sideB = \<lparr>rectId = ''y'', entryId = Some ''e2''\<rparr>\<rparr>"
  let ?c2 = "\<lparr>c_id = ''c2'', sideA = \<lparr>rectId = ''y'', entryId = None\<rparr>,
           sideB = \<lparr>rectId = ''x'', entryId = None\<rparr>\<rparr>"
  have r: "fst (removeRectangle ''x'' chartXY)"
    and n: "map_of (rectangles ?s) ''x'' = None"
    by (simp_all add: removeRectangle_def chartXY_fields)
  have h: "map_of (rectangles ?s) (rectId ?ep) = None"
    "map_of (rectangles ?s) (rectId (sideA ?c1)) = None"
    "map_of (rectangles ?s) (rectId (sideB ?c2)) = None"
    using n by simp_all
  have k: "rectId ?ep = ''x''" by simp
  from dangling_endpoint_origin[of ?s ?ep True ?c1] h(1,2)
  have a: "getEndpointPosition ?ep True ?s = \<lparr>p_x = 0, p_y = 0\<rparr>"
    "cv_from (connectionCurve ?c1 ?s) = \<lparr>p_x = 0, p_y = 0\<rparr>"
    by blast+
  from dangling_endpoint_origin[of ?s ?ep True ?c2] h(3)
  have b: "cv_to (connectionCurve ?c2 ?s) = \<lparr>p_x = 0, p_y = 0\<rparr>"
    by blast
  from dangling_endpoint_origin[of chartXY ?ep True ?c1 "''x''"] k
  have c: "getConnections ?s = getConnections chartXY"
    "getEndpointPosition ?ep True ?s = \<lparr>p_x = 0, p_y = 0\<rparr>"
    by blast+
  from c(1) have g: "getConnections ?s = [?c1]"
    by (simp add: chartXY_fields)
  from r n a b g show ?thesis by blast
qed

text \<open>
  Claim C9: when \<open>data.id\<close> already keys an entity, \<^verbatim>\<open>addRectangle(data)\<close> replaces that
  entity in place: the map keeps its size and its order of keys, and the key now leads
  to a new rectangle with the payload \<open>data\<close> and the default size 200 by 120, whatever
  the geometry of the old rectangle was. At a nonzero scale its position is the one
  drawn from the two random numbers and the visible world rectangle.
\<close>

theorem addRectangle_replaces_existing:
  assumes "map_of (rectangles s) (d_id data) = Some old"
  shows "\<exists>i<length (rectangles s).
           rectangles s ! i = (d_id data, old)
         \<and> rectangles (snd (addRectangle data u v s)) = (rectangles s)[i := (d_id data, nextRef s)]
         \<and> length (rectangles (snd (addRectangle data u v s))) = length (rectangles s)
         \<and> map_of (rectangles (snd (addRectangle data u v s))) (d_id data) = Some (nextRef s)
         \<and> r_width (objs (snd (addRectangle data u v s)) (nextRef s)) = 200
         \<and> r_height (objs (snd (addRectangle data u v s)) (nextRef s)) = 120
         \<and> r_data (objs (snd (addRectangle data u v s)) (nextRef s)) = data
         \<and> (t_scale (transform s) \<noteq> 0 \<longrightarrow>
              r_x (objs (snd (addRectangle data u v s)) (nextRef s))
                = u * (canvas_width s / t_scale (transform s) - 200)
            \<and> r_y (objs (snd (addRectangle data u v s)) (nextRef s))
                = v * (canvas_height s / t_scale (transform s) - 120))"
proof -
  from update_in_place[OF assms, of "nextRef s"] obtain i where
    i: "i < length (rectangles s)" "rectangles s ! i = (d_id data, old)"
       "AList.update (d_id data) (nextRef s) (rectangles s)
          = (rectangles s)[i := (d_id data, nextRef s)]"
    by blast
  have r: "rectangles (snd (addRectangle data u v s))
             = AList.update (d_id data) (nextRef s) (rectangles s)"
    by (simp add: addRectangle_def rect_id_def Let_def)
  have m: "map_of (rectangles (snd (addRectangle data u v s))) (d_id data) = Some (nextRef s)"
    unfolding r by (simp add: update_conv')
  have l: "length (rectangles (snd (addRectangle data u v s))) = length (rectangles s)"
    unfolding r i(3) by simp
  have ob: "objs (snd (addRectangle data u v s)) (nextRef s) =
             \<lparr>r_x = u * (canvas_width s / t_scale (transform s) - 200),
              r_y = v * (canvas_height s / t_scale (transform s) - 120),
              r_width = 200, r_height = 120, r_data = data\<rparr>"
    by (simp add: addRectangle_def Let_def)
  have g: "r_width (objs (snd (addRectangle data u v s)) (nextRef s)) = 200"
    "r_height (objs (snd (addRectangle data u v s)) (nextRef s)) = 120"
    "r_data (objs (snd (addRectangle data u v s)) (nextRef s)) = data"
    "r_x (objs (snd (addRectangle data u v s)) (nextRef s))
       = u * (canvas_width s / t_scale (transform s) - 200)"
    "r_y (objs (snd (addRectangle data u v s)) (nextRef s))
       = v * (canvas_height s / t_scale (transform s) - 120)"
    unfolding ob by simp_all
  from i(1,2) i(3)[folded r] m l g show ?thesis by blast
qed

theorem addRectangle_replaces_existing_witness:
  "map_of (rectangles sampleChart) (d_id sampleData) = Some 0
   \<and> t_scale (transform sampleChart) \<noteq> 0
   \<and> rectangles (snd (addRectangle sampleData (1 / 2) (1 / 2) sampleChart)) = [(''a'', 1)]
   \<and> length (rectangles (snd (addRectangle sampleData (1 / 2) (1 / 2) sampleChart)))
       = length (rectangles sampleChart)
   \<and> objs (snd (addRectangle sampleData (1 / 2) (1 / 2) sampleChart)) 1 =
       \<lparr>r_x = 300, r_y = 240, r_width = 200, r_height = 120, r_data = sampleData\<rparr>
   \<and> objs sampleChart 0 =
       \<lparr>r_x = 0, r_y = 0, r_width = 200, r_height = 120, r_data = sampleData\<rparr>"
proof -
  have h: "map_of (rectangles sampleChart) (d_id sampleData) = Some 0"
    by (simp add: sampleChart_fields sampleData_def)
  have sc: "t_scale (transform sampleChart) \<noteq> 0"
    by (simp add: sampleChart_fields)
  from addRectangle_replaces_existing[OF h, of "1 / 2" "1 / 2"] sc
  have l: "length (rectangles (snd (addRectangle sampleData (1 / 2) (1 / 2) sampleChart)))
       = length (rectangles sampleChart)"
    by blast
  have e: "rectangles (snd (addRectangle sampleData (1 / 2) (1 / 2) sampleChart)) = [(''a'', 1)]"
    "objs (snd (addRectangle sampleData (1 / 2) (1 / 2) sampleChart)) 1 =
       \<lparr>r_x = 300, r_y = 240, r_width = 200, r_height = 120, r_data = sampleData\<rparr>"
    by (simp_all add: addRectangle_def rect_id_def sampleChart_fields sampleData_def
        sampleChart_def emptyChart_def Let_def)
  from h sc l e sampleChart_fields(2) show ?thesis by blast
qed

text \<open>
  Claim C10: \<^verbatim>\<open>updateRectangle(id, data)\<close> stores the payload as it is, without looking at
  \<open>data.id\<close>. Whenever it returns \<^verbatim>\<open>true\<close> the map is unchanged, so the entity is still
  found under the key \<open>id\<close>; its payload is \<open>data\<close>, its getter \<^verbatim>\<open>id\<close> reports \<open>data.id\<close>, and
  its geometry is untouched. The witness updates the entity \<open>a\<close> with a payload whose id
  is \<open>b\<close>: the key and the getter then differ.
\<close>

theorem updateRectangle_keeps_key:
  assumes "fst (updateRectangle k data s)"
  shows "rectangles (snd (updateRectangle k data s)) = rectangles s
       \<and> (\<exists>ref. map_of (rectangles (snd (updateRectangle k data s))) k = Some ref
              \<and> r_data (objs (snd (updateRectangle k data s)) ref) = data
              \<and> rect_id (objs (snd (updateRectangle k data s)) ref) = d_id data
              \<and> r_x (objs (snd (updateRectangle k data s)) ref) = r_x (objs s ref)
              \<and> r_y (objs (snd (updateRectangle k data s)) ref) = r_y (objs s ref)
              \<and> r_width (objs (snd (updateRectangle k data s)) ref) = r_width (objs s ref)
              \<and> r_height (objs (snd (updateRectangle k data s)) ref) = r_height (objs s ref))"
  using assms by (auto simp: updateRectangle_def rect_id_def split: option.splits)

theorem updateRectangle_keeps_key_witness:
  "fst (updateRectangle ''a'' \<lparr>d_id = ''b'', d_title = ''B'', d_entries = []\<rparr> sampleChart)
   \<and> map_of (rectangles (snd (updateRectangle ''a''
         \<lparr>d_id = ''b'', d_title = ''B'', d_entries = []\<rparr> sampleChart))) ''a'' = Some 0
   \<and> rect_id (objs (snd (updateRectangle ''a''
         \<lparr>d_id = ''b'', d_title = ''B'', d_entries = []\<rparr> sampleChart)) 0) = ''b''
   \<and> ''b'' \<noteq> ''a''"
proof -
  have h: "fst (updateRectangle ''a'' \<lparr>d_id = ''b'', d_title = ''B'', d_entries = []\<rparr> sampleChart)"
    by (simp add: updateRectangle_def sampleChart_fields)
  from updateRectangle_keeps_key[OF h] h show ?thesis
    by (auto simp: sampleChart_fields)
qed

section \<open>Hit classification\<close>

text \<open>
  Claim C6, as amended: for every rectangle whose width and height are at least twice
  the edge threshold, the midpoint of each edge classifies as that edge, and a point in
  the bands of two adjacent edges classifies as the corner of these two edges. For every
  rectangle, \<^verbatim>\<open>getHitPart\<close> answers \<^verbatim>\<open>inside\<close> only for a point strictly within the rectangle
  that lies in none of the four bands.
\<close>

theorem hit_classification:
  "(2 * edgeThreshold \<le> r_width r \<and> 2 * edgeThreshold \<le> r_height r \<longrightarrow>
      getHitPart r (r_x r) (r_y r + r_height r / 2) = Some Left
    \<and> getHitPart r (r_x r + r_width r) (r_y r + r_height r / 2) = Some Right
    \<and> getHitPart r (r_x r + r_width r / 2) (r_y r) = Some Top
    \<and> getHitPart r (r_x r + r_width r / 2) (r_y r + r_height r) = Some Bottom
    \<and> (nearLeft r px py \<and> nearTop r px py \<longrightarrow> getHitPart r px py = Some TopLeft)
    \<and> (nearRight r px py \<and> nearTop r px py \<longrightarrow> getHitPart r px py = Some TopRight)
    \<and> (nearLeft r px py \<and> nearBottom r px py \<longrightarrow> getHitPart r px py = Some BottomLeft)
    \<and> (nearRight r px py \<and> nearBottom r px py \<longrightarrow> getHitPart r px py = Some BottomRight))
   \<and> (getHitPart r px py = Some Inside \<longrightarrow>
        r_x r < px \<and> px < r_x r + r_width r \<and> r_y r < py \<and> py < r_y r + r_height r
      \<and> \<not> nearLeft r px py \<and> \<not> nearRight r px py
      \<and> \<not> nearTop r px py \<and> \<not> nearBottom r px py)"
proof (intro conjI impI)
  assume a: "2 * edgeThreshold \<le> r_width r \<and> 2 * edgeThreshold \<le> r_height r"
  then have w: "2 * edgeThreshold \<le> r_width r" and h: "2 * edgeThreshold \<le> r_height r"
    by simp_all
  show "getHitPart r (r_x r) (r_y r + r_height r / 2) = Some Left"
    using h by (rule mid_left)
  show "getHitPart r (r_x r + r_width r) (r_y r + r_height r / 2) = Some Right"
    using h w by (rule mid_right)
  show "getHitPart r (r_x r + r_width r / 2) (r_y r) = Some Top"
    using w by (rule mid_top)
  show "getHitPart r (r_x r + r_width r / 2) (r_y r + r_height r) = Some Bottom"
    using h w by (rule mid_bottom)
  show "getHitPart r px py = Some TopLeft" if "nearLeft r px py \<and> nearTop r px py"
    using corners(1)[OF w h] that by blast
  show "getHitPart r px py = Some TopRight" if "nearRight r px py \<and> nearTop r px py"
    using corners(2)[OF w h] that by blast
  show "getHitPart r px py = Some BottomLeft" if "nearLeft r px py \<and> nearBottom r px py"
    using corners(3)[OF w h] that by blast
  show "getHitPart r px py = Some BottomRight" if "nearRight r px py \<and> nearBottom r px py"
    using corners(4)[OF w h] that by blast
next
  assume i: "getHitPart r px py = Some Inside"
  from inside_strict[OF i]
  show "r_x r < px" "px < r_x r + r_width r" "r_y r < py" "py < r_y r + r_height r"
    by simp_all
  from inside_no_band[OF i]
  show "\<not> nearLeft r px py" "\<not> nearRight r px py" "\<not> nearTop r px py" "\<not> nearBottom r px py"
    by simp_all
qed


theorem hit_classification_witness:
  "2 * edgeThreshold \<le> r_width (objs sampleChart 0)
   \<and> 2 * edgeThreshold \<le> r_height (objs sampleChart 0)
   \<and> getHitPart (objs sampleChart 0) 0 60 = Some Left
   \<and> getHitPart (objs sampleChart 0) 200 60 = Some Right
   \<and> getHitPart (objs sampleChart 0) 100 0 = Some Top
   \<and> getHitPart (objs sampleChart 0) 100 120 = Some Bottom
   \<and> nearLeft (objs sampleChart 0) 2 2 \<and> nearTop (objs sampleChart 0) 2 2
   \<and> getHitPart (objs sampleChart 0) 2 2 = Some TopLeft
   \<and> nearRight (objs sampleChart 0) 198 2 \<and> nearTop (objs sampleChart 0) 198 2
   \<and> getHitPart (objs sampleChart 0) 198 2 = Some TopRight
   \<and> nearLeft (objs sampleChart 0) 2 118 \<and> nearBottom (objs sampleChart 0) 2 118
   \<and> getHitPart (objs sampleChart 0) 2 118 = Some BottomLeft
   \<and> nearRight (objs sampleChart 0) 198 118 \<and> nearBottom (objs sampleChart 0) 198 118
   \<and> getHitPart (objs sampleChart 0) 198 118 = Some BottomRight
   \<and> getHitPart (objs sampleChart 0) 100 60 = Some Inside"
proof -
  let ?R = "objs sampleChart 0"
  have g: "2 * edgeThreshold \<le> r_width ?R \<and> 2 * edgeThreshold \<le> r_height ?R"
    by (simp add: sampleChart_fields edgeThreshold_def)
  have geom: "r_x ?R = 0" "r_y ?R = 0" "r_width ?R = 200" "r_height ?R = 120"
    by (simp_all add: sampleChart_fields)
  have n: "nearLeft ?R 2 2 \<and> nearTop ?R 2 2" "nearRight ?R 198 2 \<and> nearTop ?R 198 2"
    "nearLeft ?R 2 118 \<and> nearBottom ?R 2 118" "nearRight ?R 198 118 \<and> nearBottom ?R 198 118"
    by (simp_all add: sampleChart_fields band_defs)
  have i: "getHitPart ?R 100 60 = Some Inside"
    by (simp add: getHitPart_def sampleChart_fields band_defs)
  from hit_classification[of ?R 2 2] g n(1)
  have mids: "getHitPart ?R (r_x ?R) (r_y ?R + r_height ?R / 2) = Some Left"
    "getHitPart ?R (r_x ?R + r_width ?R) (r_y ?R + r_height ?R / 2) = Some Right"
    "getHitPart ?R (r_x ?R + r_width ?R / 2) (r_y ?R) = Some Top"
    "getHitPart ?R (r_x ?R + r_width ?R / 2) (r_y ?R + r_height ?R) = Some Bottom"
    and tl: "getHitPart ?R 2 2 = Some TopLeft"
    by blast+
  from hit_classification[of ?R 198 2] g n(2)
  have tr: "getHitPart ?R 198 2 = Some TopRight" by blast
  from hit_classification[of ?R 2 118] g n(3)
  have bl: "getHitPart ?R 2 118 = Some BottomLeft" by blast
  from hit_classification[of ?R 198 118] g n(4)
  have br: "getHitPart ?R 198 118 = Some BottomRight" by blast
  from mids have mids': "getHitPart ?R 0 60 = Some Left" "getHitPart ?R 200 60 = Some Right"
    "getHitPart ?R 100 0 = Some Top" "getHitPart ?R 100 120 = Some Bottom"
    by (simp_all add: geom)
  from g mids' n tl tr bl br i show ?thesis by blast
qed

text \<open>
  The claim as stated fails on a narrow rectangle. On a rectangle 10 wide the midpoint
  of the top edge is within the threshold of the left edge and classifies as the
  top-left corner; on a rectangle 4 wide a point in the bands of the right and the top
  edge is in the band of the left edge as well and classifies as top-left.
\<close>

theorem hit_classification_counterexample:
  "getHitPart \<lparr>r_x = 0, r_y = 0, r_width = 10, r_height = 100, r_data = sampleData\<rparr>
      (0 + 10 / 2) 0 \<noteq> Some Top
   \<and> nearRight \<lparr>r_x = 0, r_y = 0, r_width = 4, r_height = 100, r_data = sampleData\<rparr> 3 0
   \<and> nearTop \<lparr>r_x = 0, r_y = 0, r_width = 4, r_height = 100, r_data = sampleData\<rparr> 3 0
   \<and> getHitPart \<lparr>r_x = 0, r_y = 0, r_width = 4, r_height = 100, r_data = sampleData\<rparr> 3 0
        \<noteq> Some TopRight"
  by (simp add: getHitPart_def band_defs)

section \<open>Anchors of connections\<close>

text \<open>
  Claim C7, as amended: for an endpoint whose rectangle exists, if the endpoint names
  no entry (no \<^verbatim>\<open>entryId\<close>, an empty one, or one that no entry of the rectangle has), both
  its from-side and its to-side anchor are the centre of the rectangle; if it names an
  existing entry, at a nonzero scale, the anchor's y is the vertical middle of the row
  of the first entry with that id, and its x lies the scaled padding inside the right
  edge for the from side and inside the left edge for the to side.
\<close>

theorem endpoint_anchor:
  assumes "map_of (rectangles s) (rectId ep) = Some ref"
  shows "(\<not> truthy (entryId ep)
            \<or> (\<forall>e\<in>set (d_entries (r_data (objs s ref))). Some (e_id e) \<noteq> entryId ep) \<longrightarrow>
           getEndpointPosition ep isFrom s =
             \<lparr>p_x = r_x (objs s ref) + r_width (objs s ref) / 2,
              p_y = r_y (objs s ref) + r_height (objs s ref) / 2\<rparr>)
       \<and> (truthy (entryId ep)
            \<and> (\<exists>e\<in>set (d_entries (r_data (objs s ref))). Some (e_id e) = entryId ep)
            \<and> t_scale (transform s) \<noteq> 0 \<longrightarrow>
           (\<exists>i<length (d_entries (r_data (objs s ref))).
               Some (e_id (d_entries (r_data (objs s ref)) ! i)) = entryId ep
             \<and> (\<forall>j<i. Some (e_id (d_entries (r_data (objs s ref)) ! j)) \<noteq> entryId ep)
             \<and> p_y (getEndpointPosition ep isFrom s) =
                 entryRowY (objs s ref) (t_scale (transform s)) i
                   + (lineHeight / t_scale (transform s)) / 2
             \<and> p_x (getEndpointPosition ep isFrom s) =
                 (if isFrom
                  then r_x (objs s ref) + r_width (objs s ref) - padding / t_scale (transform s)
                  else r_x (objs s ref) + padding / t_scale (transform s))))"
proof (intro conjI impI)
  assume "\<not> truthy (entryId ep)
            \<or> (\<forall>e\<in>set (d_entries (r_data (objs s ref))). Some (e_id e) \<noteq> entryId ep)"
  then have "\<not> truthy (entryId ep)
      \<or> findIndex (\<lambda>e. Some (e_id e) = entryId ep) (d_entries (r_data (objs s ref))) < 0"
    by (simp add: findIndex_neg_iff)
  then show "getEndpointPosition ep isFrom s =
             \<lparr>p_x = r_x (objs s ref) + r_width (objs s ref) / 2,
              p_y = r_y (objs s ref) + r_height (objs s ref) / 2\<rparr>"
    using assms by (auto simp: getEndpointPosition_def Let_def)
next
  let ?es = "d_entries (r_data (objs s ref))"
  let ?idx = "findIndex (\<lambda>e. Some (e_id e) = entryId ep) ?es"
  assume a: "truthy (entryId ep) \<and> (\<exists>e\<in>set ?es. Some (e_id e) = entryId ep)
      \<and> t_scale (transform s) \<noteq> 0"
  then have ge: "0 \<le> ?idx"
    using findIndex_neg_iff[of "\<lambda>e. Some (e_id e) = entryId ep" ?es] by fastforce
  note f = findIndex_first[OF ge]
  have pos: "getEndpointPosition ep isFrom s =
     \<lparr>p_x = (if isFrom
              then r_x (objs s ref) + r_width (objs s ref) - padding / t_scale (transform s)
              else r_x (objs s ref) + padding / t_scale (transform s)),
      p_y = entryRowY (objs s ref) (t_scale (transform s)) (nat ?idx)
            + (lineHeight / t_scale (transform s)) / 2\<rparr>"
    using assms a ge by (simp add: getEndpointPosition_def entryRowY_def Let_def)
  show "\<exists>i<length ?es.
               Some (e_id (?es ! i)) = entryId ep
             \<and> (\<forall>j<i. Some (e_id (?es ! j)) \<noteq> entryId ep)
             \<and> p_y (getEndpointPosition ep isFrom s) =
                 entryRowY (objs s ref) (t_scale (transform s)) i
                   + (lineHeight / t_scale (transform s)) / 2
             \<and> p_x (getEndpointPosition ep isFrom s) =
                 (if isFrom
                  then r_x (objs s ref) + r_width (objs s ref) - padding / t_scale (transform s)
                  else r_x (objs s ref) + padding / t_scale (transform s))"
    using f pos by (intro exI[of _ "nat ?idx"]) simp
qed

theorem endpoint_anchor_witness:
  "map_of (rectangles sampleChart) (rectId \<lparr>rectId = ''a'', entryId = None\<rparr>) = Some 0
   \<and> getEndpointPosition \<lparr>rectId = ''a'', entryId = None\<rparr> True sampleChart
       = \<lparr>p_x = 100, p_y = 60\<rparr>
   \<and> getEndpointPosition \<lparr>rectId = ''a'', entryId = None\<rparr> False sampleChart
       = \<lparr>p_x = 100, p_y = 60\<rparr>
   \<and> truthy (entryId \<lparr>rectId = ''a'', entryId = Some ''e2''\<rparr>)
   \<and> t_scale (transform sampleChart) \<noteq> 0
   \<and> p_x (getEndpointPosition \<lparr>rectId = ''a'', entryId = Some ''e2''\<rparr> True sampleChart) = 192
   \<and> p_x (getEndpointPosition \<lparr>rectId = ''a'', entryId = Some ''e2''\<rparr> False sampleChart) = 8
   \<and> p_y (getEndpointPosition \<lparr>rectId = ''a'', entryId = Some ''e2''\<rparr> True sampleChart)
       = entryRowY (objs sampleChart 0) 1 1 + (lineHeight / 1) / 2"
proof -
  let ?n = "\<lparr>rectId = ''a'', entryId = None\<rparr>"
  let ?e = "\<lparr>rectId = ''a'', entryId = Some ''e2''\<rparr>"
  have h: "map_of (rectangles sampleChart) (rectId ?n) = Some 0"
    and h': "map_of (rectangles sampleChart) (rectId ?e) = Some 0"
    by (simp_all add: sampleChart_fields)
  have t: "truthy (entryId ?e)" by simp
  have sc: "t_scale (transform sampleChart) \<noteq> 0" by (simp add: sampleChart_fields)
  have ex: "\<exists>e\<in>set (d_entries (r_data (objs sampleChart 0))). Some (e_id e) = entryId ?e"
    by (simp add: sampleChart_fields sampleData_def)
  have n1: "getEndpointPosition ?n True sampleChart = \<lparr>p_x = 100, p_y = 60\<rparr>"
    using endpoint_anchor[OF h, of True] by (simp add: sampleChart_fields)
  have n2: "getEndpointPosition ?n False sampleChart = \<lparr>p_x = 100, p_y = 60\<rparr>"
    using endpoint_anchor[OF h, of False] by (simp add: sampleChart_fields)
  from endpoint_anchor[OF h', of True] t ex sc
  obtain i where i: "i < length (d_entries (r_data (objs sampleChart 0)))"
    "Some (e_id (d_entries (r_data (objs sampleChart 0)) ! i)) = entryId ?e"
    "p_y (getEndpointPosition ?e True sampleChart)
       = entryRowY (objs sampleChart 0) (t_scale (transform sampleChart)) i
          + (lineHeight / t_scale (transform sampleChart)) / 2"
    "p_x (getEndpointPosition ?e True sampleChart)
       = r_x (objs sampleChart 0) + r_width (objs sampleChart 0)
          - padding / t_scale (transform sampleChart)"
    by auto
  from i(1,2) have "i = 1"
    by (auto simp: sampleChart_fields sampleData_def less_Suc_eq numeral_2_eq_2)
  with i(3,4) have e1: "p_x (getEndpointPosition ?e True sampleChart) = 192"
    "p_y (getEndpointPosition ?e True sampleChart)
       = entryRowY (objs sampleChart 0) 1 1 + (lineHeight / 1) / 2"
    by (simp_all add: sampleChart_fields padding_def)
  from endpoint_anchor[OF h', of False] t ex sc
  have e2: "p_x (getEndpointPosition ?e False sampleChart) = 8"
    by (auto simp: sampleChart_fields padding_def)
  from h n1 n2 t sc e1 e2 show ?thesis by blast
qed

text \<open>
  The claim as stated fails on the sample chart (scale 1, rectangle \<open>a\<close> at the origin,
  200 wide): without an entry the anchors of both sides are at the centre, not on the
  right or the left edge; with the entry \<open>e1\<close> they are 8 units inside the edges.
\<close>

theorem endpoint_anchor_counterexample:
  "map_of (rectangles sampleChart) ''a'' = Some 0
   \<and> p_x (getEndpointPosition \<lparr>rectId = ''a'', entryId = None\<rparr> True sampleChart)
        \<noteq> r_x (objs sampleChart 0) + r_width (objs sampleChart 0)
   \<and> p_x (getEndpointPosition \<lparr>rectId = ''a'', entryId = None\<rparr> False sampleChart)
        \<noteq> r_x (objs sampleChart 0)
   \<and> p_x (getEndpointPosition \<lparr>rectId = ''a'', entryId = Some ''e1''\<rparr> True sampleChart)
        \<noteq> r_x (objs sampleChart 0) + r_width (objs sampleChart 0)
   \<and> p_x (getEndpointPosition \<lparr>rectId = ''a'', entryId = Some ''e1''\<rparr> False sampleChart)
        \<noteq> r_x (objs sampleChart 0)"
  by (simp add: getEndpointPosition_def sampleChart_fields sampleData_def padding_def Let_def)

section \<open>The view transform\<close>

text \<open>
  Claim C5, as amended: from a transform of positive scale, a wheel event with
  \<open>deltaY < 1000\<close> leaves the scale positive; a pointer-move that runs the pinch branch
  leaves it positive when the recorded \<open>startDist\<close> and \<open>startScale\<close> are positive and
  the two tracked pointers are at different positions; every other pointer-move (a
  pan among them) leaves the scale as it was.
\<close>

theorem scale_stays_positive:
  assumes "0 < t_scale (transform s)"
  shows "(deltaY < 1000 \<longrightarrow> 0 < t_scale (transform (handleWheel deltaY cx cy s)))
       \<and> (pinch s = Some p \<and> map_of (pointers s) pid \<noteq> None \<and> length (pointers s) = 2
            \<and> 0 < startDist p \<and> 0 < startScale p
            \<and> map snd (AList.update pid \<lparr>p_x = cx, p_y = cy\<rparr> (pointers s)) ! 0
                \<noteq> map snd (AList.update pid \<lparr>p_x = cx, p_y = cy\<rparr> (pointers s)) ! 1
          \<longrightarrow> 0 < t_scale (transform (handlePointerMove pid cx cy s)))
       \<and> (\<not> (pinch s \<noteq> None \<and> map_of (pointers s) pid \<noteq> None \<and> length (pointers s) = 2)
          \<longrightarrow> t_scale (transform (handlePointerMove pid cx cy s)) = t_scale (transform s)
            \<and> 0 < t_scale (transform (handlePointerMove pid cx cy s)))"
proof (intro conjI impI)
  assume "deltaY < 1000"
  then have "0 < 1 + - deltaY * 0.001" by simp
  with assms have "0 < t_scale (transform s) * (1 + - deltaY * 0.001)"
    by (rule mult_pos_pos)
  then show "0 < t_scale (transform (handleWheel deltaY cx cy s))"
    by (simp add: handleWheel_def Let_def)
next
  let ?pts = "map snd (AList.update pid \<lparr>p_x = cx, p_y = cy\<rparr> (pointers s))"
  assume a: "pinch s = Some p \<and> map_of (pointers s) pid \<noteq> None \<and> length (pointers s) = 2
            \<and> 0 < startDist p \<and> 0 < startScale p \<and> ?pts ! 0 \<noteq> ?pts ! 1"
  then have "p_x (?pts ! 1) - p_x (?pts ! 0) \<noteq> 0 \<or> p_y (?pts ! 1) - p_y (?pts ! 0) \<noteq> 0"
    by (auto intro: Point.equality)
  then have "0 < hypot (p_x (?pts ! 1) - p_x (?pts ! 0)) (p_y (?pts ! 1) - p_y (?pts ! 0))"
    by (simp only: hypot_pos_iff)
  with a have "0 < hypot (p_x (?pts ! 1) - p_x (?pts ! 0)) (p_y (?pts ! 1) - p_y (?pts ! 0))
                     / startDist p * startScale p"
    by simp
  moreover from a have "handlePointerMove pid cx cy s =
         pinchMove p (s\<lparr>pointers := AList.update pid \<lparr>p_x = cx, p_y = cy\<rparr> (pointers s)\<rparr>)"
    by (intro handlePointerMove_pinch) auto
  ultimately show "0 < t_scale (transform (handlePointerMove pid cx cy s))"
    by (simp add: pinchMove_def Let_def)
next
  assume n: "\<not> (pinch s \<noteq> None \<and> map_of (pointers s) pid \<noteq> None \<and> length (pointers s) = 2)"
  from handlePointerMove_other_scale[OF n]
  show "t_scale (transform (handlePointerMove pid cx cy s)) = t_scale (transform s)" .
  with assms show "0 < t_scale (transform (handlePointerMove pid cx cy s))" by simp
qed

theorem scale_stays_positive_witness:
  "0 < t_scale (transform sampleChart)
   \<and> 0 < t_scale (transform (handleWheel 100 0 0 sampleChart))
   \<and> 0 < t_scale (transform twoPointers)
   \<and> pinch twoPointers = Some \<lparr>startDist = 10, startScale = 1, mid = \<lparr>p_x = 5, p_y = 0\<rparr>\<rparr>
   \<and> 0 < t_scale (transform (handlePointerMove 2 20 0 twoPointers))
   \<and> t_scale (transform (handlePointerMove 2 20 0 twoPointers)) = 2
   \<and> 0 < t_scale (transform panStart)
   \<and> panning panStart \<noteq> None \<and> pinch panStart = None
   \<and> 0 < t_scale (transform (handlePointerMove 1 520 505 panStart))"
proof -
  let ?p = "\<lparr>startDist = 10, startScale = 1, mid = \<lparr>p_x = 5, p_y = 0\<rparr>\<rparr>"
  have h: "0 < t_scale (transform sampleChart)" "0 < t_scale (transform twoPointers)"
    "0 < t_scale (transform panStart)"
    by (simp_all add: sampleChart_fields twoPointers_fields panStart_fields)
  have d: "(100::real) < 1000" by simp
  from scale_stays_positive[OF h(1), of 100 0 0] d
  have w: "0 < t_scale (transform (handleWheel 100 0 0 sampleChart))" by blast
  have a: "pinch twoPointers = Some ?p \<and> map_of (pointers twoPointers) 2 \<noteq> None
      \<and> length (pointers twoPointers) = 2 \<and> 0 < startDist ?p \<and> 0 < startScale ?p
      \<and> map snd (AList.update 2 \<lparr>p_x = 20, p_y = 0\<rparr> (pointers twoPointers)) ! 0
          \<noteq> map snd (AList.update 2 \<lparr>p_x = 20, p_y = 0\<rparr> (pointers twoPointers)) ! 1"
    by (simp add: twoPointers_fields)
  from scale_stays_positive[OF h(2), where pid = 2 and cx = 20 and cy = 0 and p = ?p] a
  have p: "0 < t_scale (transform (handlePointerMove 2 20 0 twoPointers))" by blast
  have v: "t_scale (transform (handlePointerMove 2 20 0 twoPointers)) = 2"
    by (simp add: twoPointers_move_transform)
  have n: "\<not> (pinch panStart \<noteq> None \<and> map_of (pointers panStart) 1 \<noteq> None
              \<and> length (pointers panStart) = 2)"
    by (simp add: panStart_fields)
  from scale_stays_positive[OF h(3), where pid = 1 and cx = 520 and cy = 505] n
  have m: "0 < t_scale (transform (handlePointerMove 1 520 505 panStart))" by blast
  have f: "panning panStart \<noteq> None \<and> pinch panStart = None"
    by (simp add: panStart_fields)
  from h w a p v m f show ?thesis by blast
qed

text \<open>
  The claim as stated fails for a wheel event with \<open>deltaY = 2000\<close>: the factor
  \<open>1 - 2000 * 0.001\<close> is negative and so is the new scale. Nothing in \<^verbatim>\<open>handleWheel\<close>
  bounds the factor.
\<close>

theorem scale_stays_positive_counterexample:
  "0 < t_scale (transform (emptyChart 800 600))
   \<and> \<not> 0 < t_scale (transform (handleWheel 2000 0 0 (emptyChart 800 600)))"
  by (simp add: handleWheel_def emptyChart_def Let_def)

text \<open>
  Claim C4, as amended: for a pinch recorded with \<open>startDist > 0\<close> and a nonzero
  \<open>startScale\<close>, while the scale is nonzero, a pinch pointer-move that leaves the two
  pointers at a distance \<open>currentDist > 0\<close> sets the scale to
  \<open>startScale * (currentDist / startDist)\<close>, and \<^verbatim>\<open>screenToWorld\<close> maps the recorded
  midpoint to the same world point before and after the move.
\<close>

theorem pinch_scale_and_pivot:
  assumes "pinch s = Some p" and "map_of (pointers s) pid \<noteq> None"
    and "length (pointers s) = 2"
    and "pts = map snd (AList.update pid \<lparr>p_x = cx, p_y = cy\<rparr> (pointers s))"
    and "currentDist = hypot (p_x (pts ! 1) - p_x (pts ! 0)) (p_y (pts ! 1) - p_y (pts ! 0))"
    and "0 < startDist p" and "0 < currentDist" and "startScale p \<noteq> 0"
    and "t_scale (transform s) \<noteq> 0"
  shows "t_scale (transform (handlePointerMove pid cx cy s))
           = startScale p * (currentDist / startDist p)
       \<and> screenToWorld (handlePointerMove pid cx cy s) (p_x (mid p)) (p_y (mid p))
           = screenToWorld s (p_x (mid p)) (p_y (mid p))"
proof -
  have m: "handlePointerMove pid cx cy s =
         pinchMove p (s\<lparr>pointers := AList.update pid \<lparr>p_x = cx, p_y = cy\<rparr> (pointers s)\<rparr>)"
    using assms(1-3) by (rule handlePointerMove_pinch)
  have sc: "t_scale (transform (handlePointerMove pid cx cy s))
              = currentDist / startDist p * startScale p"
    unfolding m using assms(4,5) by (simp add: pinchMove_def Let_def)
  have nz: "currentDist / startDist p * startScale p \<noteq> 0"
    using assms(6,7,8) by simp
  have "screenToWorld (handlePointerMove pid cx cy s) (p_x (mid p)) (p_y (mid p))
           = screenToWorld s (p_x (mid p)) (p_y (mid p))"
    unfolding m using assms(4,5) nz
    by (simp add: pinchMove_def screenToWorld_def Let_def)
  with sc show ?thesis by (simp add: mult.commute)
qed

theorem pinch_scale_and_pivot_witness:
  "pinch twoPointers = Some \<lparr>startDist = 10, startScale = 1, mid = \<lparr>p_x = 5, p_y = 0\<rparr>\<rparr>
   \<and> map_of (pointers twoPointers) 2 \<noteq> None \<and> length (pointers twoPointers) = 2
   \<and> hypot (20 - 0) (0 - 0) = 20
   \<and> t_scale (transform twoPointers) \<noteq> 0
   \<and> t_scale (transform (handlePointerMove 2 20 0 twoPointers)) = 1 * (20 / 10)
   \<and> screenToWorld (handlePointerMove 2 20 0 twoPointers) 5 0 = screenToWorld twoPointers 5 0
   \<and> screenToWorld twoPointers 5 0 = \<lparr>p_x = 5, p_y = 0\<rparr>"
proof -
  let ?p = "\<lparr>startDist = 10, startScale = 1, mid = \<lparr>p_x = 5, p_y = 0\<rparr>\<rparr>"
  let ?pts = "[\<lparr>p_x = 0, p_y = 0\<rparr>, \<lparr>p_x = 20, p_y = 0\<rparr>]"
  have a: "pinch twoPointers = Some ?p" "map_of (pointers twoPointers) 2 \<noteq> None"
    "length (pointers twoPointers) = 2"
    "?pts = map snd (AList.update 2 \<lparr>p_x = 20, p_y = 0\<rparr> (pointers twoPointers))"
    by (simp_all add: twoPointers_fields)
  have b: "(20::real) = hypot (p_x (?pts ! 1) - p_x (?pts ! 0)) (p_y (?pts ! 1) - p_y (?pts ! 0))"
    by (simp add: hypot_axis)
  have c: "0 < startDist ?p" "(0::real) < 20" "startScale ?p \<noteq> 0"
    "t_scale (transform twoPointers) \<noteq> 0"
    by (simp_all add: twoPointers_fields)
  from pinch_scale_and_pivot[OF a b c]
  have r: "t_scale (transform (handlePointerMove 2 20 0 twoPointers)) = 1 * (20 / 10)"
    "screenToWorld (handlePointerMove 2 20 0 twoPointers) 5 0 = screenToWorld twoPointers 5 0"
    by simp_all
  have h: "hypot (20 - 0) (0 - 0) = 20" by (simp add: hypot_axis)
  have w: "screenToWorld twoPointers 5 0 = \<lparr>p_x = 5, p_y = 0\<rparr>"
    by (simp add: screenToWorld_def twoPointers_fields)
  from a(1-3) h c(4) r w show ?thesis by blast
qed

text \<open>
  The claim as stated fails when a pinch pointer-move brings the two pointers to the
  same position: \<open>currentDist\<close> and the new scale are 0, and \<^verbatim>\<open>screenToWorld\<close> then
  divides by 0 (\<^verbatim>\<open>NaN\<close> in the program, 0 here), so the midpoint \<open>(5, 0)\<close> no longer maps to
  the world point \<open>(5, 0)\<close> it mapped to before the move.
\<close>

theorem pinch_pivot_counterexample:
  "pinch twoPointers = Some \<lparr>startDist = 10, startScale = 1, mid = \<lparr>p_x = 5, p_y = 0\<rparr>\<rparr>
   \<and> (0::real) < 10
   \<and> map_of (pointers twoPointers) 2 \<noteq> None \<and> length (pointers twoPointers) = 2
   \<and> t_scale (transform (handlePointerMove 2 0 0 twoPointers)) = 0
   \<and> screenToWorld (handlePointerMove 2 0 0 twoPointers) 5 0 \<noteq> screenToWorld twoPointers 5 0"
  by (simp add: twoPointers_fields twoPointers_move_transform screenToWorld_def)

section \<open>Gesture fields\<close>

text \<open>
  Claim C3, as amended: in every state reached from an idle state by a disciplined
  trace (each pointer-down carries an untracked id and arrives while fewer than two
  pointers are tracked), at most one of \<^verbatim>\<open>draggingRect\<close>, \<^verbatim>\<open>resizingRect\<close> and \<^verbatim>\<open>panning\<close>
  is set, \<^verbatim>\<open>pinch\<close> is set exactly while two pointers are tracked, and with no pointer
  tracked no gesture field is set.
\<close>

theorem gestures_of_disciplined_traces:
  assumes "idle s" and "disciplined s evs"
  shows "singlePointerGestures (run s evs) \<le> 1
       \<and> (pinch (run s evs) \<noteq> None \<longleftrightarrow> length (pointers (run s evs)) = 2)
       \<and> (pointers (run s evs) = [] \<longrightarrow> activeGestures (run s evs) = 0)"
proof -
  from inv_run[OF idle_inv[OF assms(1)] assms(2)] have i: "gesture_inv (run s evs)" .
  then have "length (pointers (run s evs)) = 0 \<or> length (pointers (run s evs)) = 1
    \<or> length (pointers (run s evs)) = 2"
    unfolding gesture_inv_def by linarith
  with i show ?thesis
    unfolding gesture_inv_def activeGestures_def by auto
qed

theorem gestures_of_disciplined_traces_witness:
  "idle (emptyChart 800 600)
   \<and> disciplined (emptyChart 800 600) [PointerDown 1 0 0, PointerDown 2 10 0]
   \<and> singlePointerGestures twoPointers \<le> 1
   \<and> pinch twoPointers \<noteq> None \<and> length (pointers twoPointers) = 2
   \<and> disciplined (emptyChart 800 600) [PointerDown 1 0 0, PointerUp 1 0 0]
   \<and> pointers (run (emptyChart 800 600) [PointerDown 1 0 0, PointerUp 1 0 0]) = []
   \<and> activeGestures (run (emptyChart 800 600) [PointerDown 1 0 0, PointerUp 1 0 0]) = 0"
proof -
  have i: "idle (emptyChart 800 600)" by (rule emptyChart_idle)
  have d1: "disciplined (emptyChart 800 600) [PointerDown 1 0 0, PointerDown 2 10 0]"
    by (simp add: down1_fields) (simp add: emptyChart_def)
  have d2: "disciplined (emptyChart 800 600) [PointerDown 1 0 0, PointerUp 1 0 0]"
    by (simp add: emptyChart_def)
  have l: "length (pointers twoPointers) = 2" by (simp add: twoPointers_fields)
  have e: "pointers (run (emptyChart 800 600) [PointerDown 1 0 0, PointerUp 1 0 0]) = []"
    by (simp add: run_def handlePointerUp_def down1_fields updateCursor_fields Let_def)
  from gestures_of_disciplined_traces[OF i d1] l
  have a: "singlePointerGestures twoPointers \<le> 1" "pinch twoPointers \<noteq> None"
    unfolding twoPointers_def by blast+
  from gestures_of_disciplined_traces[OF i d2] e
  have b: "activeGestures (run (emptyChart 800 600) [PointerDown 1 0 0, PointerUp 1 0 0]) = 0"
    by blast
  from i d1 d2 l e a b show ?thesis by blast
qed

text \<open>
  The claim as stated fails after two pointer-downs on the empty chart: the first starts
  a pan, the second records the pinch and clears nothing, so two gesture fields are
  set. With a third pointer-down, on the inside of the rectangle of the sample chart, a
  drag is set next to the pan.
\<close>

theorem exclusive_gestures_counterexample:
  "idle (emptyChart 800 600)
   \<and> panning twoPointers \<noteq> None \<and> pinch twoPointers \<noteq> None
   \<and> \<not> activeGestures twoPointers \<le> 1
   \<and> idle sampleChart
   \<and> draggingRect (run sampleChart
        [PointerDown 1 500 500, PointerDown 2 510 500, PointerDown 3 100 60]) \<noteq> None
   \<and> panning (run sampleChart
        [PointerDown 1 500 500, PointerDown 2 510 500, PointerDown 3 100 60]) \<noteq> None"
proof -
  have 1: "idle (emptyChart 800 600)" by (rule emptyChart_idle)
  have 2: "panning twoPointers \<noteq> None \<and> pinch twoPointers \<noteq> None
      \<and> \<not> activeGestures twoPointers \<le> 1"
    by (simp add: twoPointers_fields activeGestures_def singlePointerGestures_def)
  have 3: "idle sampleChart"
    by (simp add: idle_def activeGestures_def singlePointerGestures_def sampleChart_fields)
  have s2: "pointers (handlePointerDown 2 510 500 panStart)
              = [(1, \<lparr>p_x = 500, p_y = 500\<rparr>), (2, \<lparr>p_x = 510, p_y = 500\<rparr>)]"
    "panning (handlePointerDown 2 510 500 panStart) = panning panStart"
    "rectangles (handlePointerDown 2 510 500 panStart) = rectangles sampleChart"
    "objs (handlePointerDown 2 510 500 panStart) = objs sampleChart"
    "transform (handlePointerDown 2 510 500 panStart) = transform sampleChart"
    by (simp_all add: handlePointerDown_def panStart_fields Let_def)
      (simp_all add: panStart_def run_def handlePointerDown_def sampleChart_fields Let_def
         split: option.splits prod.splits)
  have r: "run sampleChart [PointerDown 1 500 500, PointerDown 2 510 500, PointerDown 3 100 60]
      = handlePointerDown 3 100 60 (handlePointerDown 2 510 500 panStart)"
    by (simp add: run_def panStart_def)
  have 4: "draggingRect (handlePointerDown 3 100 60 (handlePointerDown 2 510 500 panStart)) \<noteq> None
     \<and> panning (handlePointerDown 3 100 60 (handlePointerDown 2 510 500 panStart)) \<noteq> None"
    by (simp add: handlePointerDown_def[of 3] s2 panStart_fields hitTest_def screenToWorld_def
        getHitPart_def band_defs sampleChart_fields Let_def)
  from 1 2 3 4 show ?thesis unfolding r by blast
qed

section \<open>Resizing\<close>

text \<open>
  Claim C1: a resize gesture is the pointer-down that sets \<^verbatim>\<open>resizingRect\<close>, followed by
  any sequence of pointer-move events, at a positive scale. After the gesture the edge
  opposite to the dragged part is where it was before the gesture: dragging the left
  edge leaves \<open>x + width\<close> unchanged, the right edge leaves \<open>x\<close> unchanged, the top edge
  leaves \<open>y + height\<close> unchanged and the bottom edge leaves \<open>y\<close> unchanged, a corner
  pinning both. As soon as one of the moves is a move of a tracked pointer (the moves of
  other pointers only update the cursor), the width is at least \<open>minWidth / scale\<close> and
  the height at least \<^verbatim>\<open>calculateMinimumHeight(rect, scale)\<close>. The moves leave the scale
  as it is.
\<close>

theorem resize_floor_and_pinned_edges:
  assumes "resizingRect s0 = None"
    and "resizingRect (handlePointerDown pid cx cy s0) = Some rz"
    and "0 < t_scale (transform s0)"
    and "s' = run (handlePointerDown pid cx cy s0) (pointerMoves ms)"
  shows "(rz_part rz \<in> {Left, TopLeft, BottomLeft} \<longrightarrow>
            r_x (objs s' (rz_rect rz)) + r_width (objs s' (rz_rect rz))
              = r_x (objs s0 (rz_rect rz)) + r_width (objs s0 (rz_rect rz)))
       \<and> (rz_part rz \<in> {Right, TopRight, BottomRight} \<longrightarrow>
            r_x (objs s' (rz_rect rz)) = r_x (objs s0 (rz_rect rz)))
       \<and> (rz_part rz \<in> {Top, TopLeft, TopRight} \<longrightarrow>
            r_y (objs s' (rz_rect rz)) + r_height (objs s' (rz_rect rz))
              = r_y (objs s0 (rz_rect rz)) + r_height (objs s0 (rz_rect rz)))
       \<and> (rz_part rz \<in> {Bottom, BottomLeft, BottomRight} \<longrightarrow>
            r_y (objs s' (rz_rect rz)) = r_y (objs s0 (rz_rect rz)))
       \<and> ((\<exists>(i, x, y)\<in>set ms. map_of (pointers (handlePointerDown pid cx cy s0)) i \<noteq> None) \<longrightarrow>
            r_width (objs s' (rz_rect rz)) \<ge> minWidth / t_scale (transform s')
          \<and> r_height (objs s' (rz_rect rz))
              \<ge> calculateMinimumHeight (objs s' (rz_rect rz)) (t_scale (transform s')))
       \<and> t_scale (transform s') = t_scale (transform s0)
       \<and> rz_part rz \<noteq> Inside"
proof -
  let ?s = "handlePointerDown pid cx cy s0"
  note st = handlePointerDown_starts_resize[OF assms(1,2)]
  have p0: "pinned rz (objs ?s (rz_rect rz))"
    unfolding pinned_def st by simp
  have inv0: "resizing_inv rz ?s ?s"
    unfolding resizing_inv_def using assms(2) st(1) p0 by simp
  have inv: "resizing_inv rz ?s s'"
    unfolding assms(4) using inv0 by (rule run_moves_inv)
  then have pin: "pinned rz (objs s' (rz_rect rz))" and tr: "transform s' = transform s0"
    by (simp_all add: resizing_inv_def st(3))
  have fl: "floors (objs s' (rz_rect rz)) (t_scale (transform s'))"
    if "\<exists>(i, x, y)\<in>set ms. map_of (pointers ?s) i \<noteq> None"
    unfolding assms(4) by (rule run_moves_floors[OF inv0 disjI2[OF that]])
  from pin fl tr st(8) show ?thesis
    unfolding pinned_def floors_def has_parts st(4-7) by simp
qed

theorem resize_floor_and_pinned_edges_witness:
  "resizingRect sampleChart = None \<and> 0 < t_scale (transform sampleChart)
   \<and> r_x (objs (run (handlePointerDown 1 200 120 sampleChart) (pointerMoves [(1, 0, 0)])) 0)
       = r_x (objs sampleChart 0)
   \<and> r_y (objs (run (handlePointerDown 1 200 120 sampleChart) (pointerMoves [(1, 0, 0)])) 0)
       = r_y (objs sampleChart 0)
   \<and> r_width (objs (run (handlePointerDown 1 200 120 sampleChart) (pointerMoves [(1, 0, 0)])) 0)
       = 50
   \<and> r_height (objs (run (handlePointerDown 1 200 120 sampleChart) (pointerMoves [(1, 0, 0)])) 0)
       = 356 / 5
   \<and> r_x (objs (run (handlePointerDown 1 0 0 sampleChart) (pointerMoves [(1, 500, 500)])) 0)
       + r_width (objs (run (handlePointerDown 1 0 0 sampleChart) (pointerMoves [(1, 500, 500)])) 0)
       = r_x (objs sampleChart 0) + r_width (objs sampleChart 0)
   \<and> r_y (objs (run (handlePointerDown 1 0 0 sampleChart) (pointerMoves [(1, 500, 500)])) 0)
       + r_height (objs (run (handlePointerDown 1 0 0 sampleChart) (pointerMoves [(1, 500, 500)])) 0)
       = r_y (objs sampleChart 0) + r_height (objs sampleChart 0)
   \<and> r_width (objs (run (handlePointerDown 1 0 0 sampleChart) (pointerMoves [(1, 500, 500)])) 0)
       \<ge> minWidth / t_scale (transform (run (handlePointerDown 1 0 0 sampleChart)
                                            (pointerMoves [(1, 500, 500)])))
   \<and> r_height (objs (run (handlePointerDown 1 0 0 sampleChart) (pointerMoves [(1, 500, 500)])) 0)
       \<ge> calculateMinimumHeight
            (objs (run (handlePointerDown 1 0 0 sampleChart) (pointerMoves [(1, 500, 500)])) 0)
            (t_scale (transform (run (handlePointerDown 1 0 0 sampleChart)
                                   (pointerMoves [(1, 500, 500)]))))"
proof -
  let ?br = "\<lparr>rz_rect = 0, rz_part = BottomRight, rz_start = \<lparr>p_x = 200, p_y = 120\<rparr>,
           rz_init = \<lparr>i_x = 0, i_y = 0, i_w = 200, i_h = 120\<rparr>\<rparr>"
  let ?tl = "\<lparr>rz_rect = 0, rz_part = TopLeft, rz_start = \<lparr>p_x = 0, p_y = 0\<rparr>,
           rz_init = \<lparr>i_x = 0, i_y = 0, i_w = 200, i_h = 120\<rparr>\<rparr>"
  have h: "resizingRect sampleChart = None" "0 < t_scale (transform sampleChart)"
    by (simp_all add: sampleChart_fields)
  have pb: "rz_part ?br \<in> {Right, TopRight, BottomRight}"
    "rz_part ?br \<in> {Bottom, BottomLeft, BottomRight}" "rz_rect ?br = 0"
    and pt: "rz_part ?tl \<in> {Left, TopLeft, BottomLeft}"
    "rz_part ?tl \<in> {Top, TopLeft, TopRight}" "rz_rect ?tl = 0"
    by simp_all
  have tb: "\<exists>(i, x, y)\<in>set [(1, 0, 0)].
      map_of (pointers (handlePointerDown 1 200 120 sampleChart)) i \<noteq> None"
    and tt: "\<exists>(i, x, y)\<in>set [(1, 500, 500)].
      map_of (pointers (handlePointerDown 1 0 0 sampleChart)) i \<noteq> None"
    by (simp_all add: resizeStart_fields)
  note A = resize_floor_and_pinned_edges[OF h(1) resizeStart_fields(1) h(2) refl,
      of "[(1, 0, 0)]"]
  note B = resize_floor_and_pinned_edges[OF h(1) resizeStart_fields(2) h(2) refl,
      of "[(1, 500, 500)]"]
  from A pb tb have a:
    "r_x (objs (run (handlePointerDown 1 200 120 sampleChart) (pointerMoves [(1, 0, 0)])) 0)
       = r_x (objs sampleChart 0)"
    "r_y (objs (run (handlePointerDown 1 200 120 sampleChart) (pointerMoves [(1, 0, 0)])) 0)
       = r_y (objs sampleChart 0)"
    by simp_all
  from B pt tt have b:
    "r_x (objs (run (handlePointerDown 1 0 0 sampleChart) (pointerMoves [(1, 500, 500)])) 0)
       + r_width (objs (run (handlePointerDown 1 0 0 sampleChart) (pointerMoves [(1, 500, 500)])) 0)
       = r_x (objs sampleChart 0) + r_width (objs sampleChart 0)"
    "r_y (objs (run (handlePointerDown 1 0 0 sampleChart) (pointerMoves [(1, 500, 500)])) 0)
       + r_height (objs (run (handlePointerDown 1 0 0 sampleChart) (pointerMoves [(1, 500, 500)])) 0)
       = r_y (objs sampleChart 0) + r_height (objs sampleChart 0)"
    "r_width (objs (run (handlePointerDown 1 0 0 sampleChart) (pointerMoves [(1, 500, 500)])) 0)
       \<ge> minWidth / t_scale (transform (run (handlePointerDown 1 0 0 sampleChart)
                                            (pointerMoves [(1, 500, 500)])))"
    "r_height (objs (run (handlePointerDown 1 0 0 sampleChart) (pointerMoves [(1, 500, 500)])) 0)
       \<ge> calculateMinimumHeight
            (objs (run (handlePointerDown 1 0 0 sampleChart) (pointerMoves [(1, 500, 500)])) 0)
            (t_scale (transform (run (handlePointerDown 1 0 0 sampleChart)
                                   (pointerMoves [(1, 500, 500)]))))"
    by auto
  have c: "r_width (objs (run (handlePointerDown 1 200 120 sampleChart) (pointerMoves [(1, 0, 0)])) 0)
       = 50"
    "r_height (objs (run (handlePointerDown 1 200 120 sampleChart) (pointerMoves [(1, 0, 0)])) 0)
       = 356 / 5"
    by (simp_all add: resize_bottom_right_result)
  from h a b c show ?thesis by blast
qed

end
